theory Spec2Isabelle
  imports Complex_Main "HOL-Library.Word"
begin

section \<open>JavaScript values used by the gateway\<close>

text \<open>
  A JavaScript string is a sequence of UTF-16 code units: \<open>length\<close>,
  \<open>substring\<close>, \<open>startsWith\<close>, \<open>includes\<close> (here \<open>includes_js\<close>) and the
  regular expressions of \<open>src/index.js\<close> (none has the \<open>u\<close> flag) all work on code
  units. A string is therefore a list of code units, each a natural number; \<open>js\<close>
  turns an ASCII literal of the source into that list.
  Labels that the source only ever writes as literals and compares as wholes (country
  names, routes, method names, statuses) stay HOL strings.

  JavaScript numbers are IEEE doubles. The scores, priorities and probabilities are
  modelled in exact real arithmetic, so a sum such as \<open>0.5 + 0.2 + 0.2\<close> is exactly
  \<open>0.9\<close> here and one unit in the last place below it in a double; the properties
  proved of scores do not depend on which scores coincide. The counters are integers.
\<close>

type_synonym jsstring = "nat list"

definition js :: "string \<Rightarrow> jsstring" where
  "js s = map of_char s"

definition startsWith :: "'a list \<Rightarrow> 'a list \<Rightarrow> bool" where
  \<comment> \<open>\<open>s.startsWith(p)\<close>\<close>
  "startsWith s p = (take (length p) s = p)"

definition substring :: "'a list \<Rightarrow> nat \<Rightarrow> nat \<Rightarrow> 'a list" where
  \<comment> \<open>\<open>s.substring(a, b)\<close> for non-negative integers: both ends are clamped to the
      length and swapped when out of order.\<close>
  "substring s a b =
     (let a' = min a (length s); b' = min b (length s)
      in take (max a' b' - min a' b') (drop (min a' b') s))"

fun includes_js :: "'a list \<Rightarrow> 'a list \<Rightarrow> bool" where
  \<comment> \<open>\<open>s.includes(w)\<close>: \<open>w\<close> occurs in \<open>s\<close> at some position\<close>
  "includes_js [] w = (w = [])"
| "includes_js (c # s) w = (startsWith (c # s) w \<or> includes_js s w)"

definition toLowerCase_unit :: "nat \<Rightarrow> nat" where
  \<comment> \<open>The lower-case mapping on the code units below \<open>0x100\<close>: \<open>A-Z\<close>, and the Latin-1
      capitals \<open>0xC0-0xDE\<close> without the multiplication sign \<open>0xD7\<close>. The case tables of
      the rest of Unicode belong to the JavaScript engine, not to this repository; code
      units from \<open>0x100\<close> on are left as they are.\<close>
  "toLowerCase_unit c =
     (if 65 \<le> c \<and> c \<le> 90 then c + 32
      else if 192 \<le> c \<and> c \<le> 222 \<and> c \<noteq> 215 then c + 32
      else c)"

definition toLowerCase :: "jsstring \<Rightarrow> jsstring" where
  "toLowerCase s = map toLowerCase_unit s"

definition isWhiteSpace :: "nat \<Rightarrow> bool" where
  \<comment> \<open>What \<open>trim\<close> strips: ECMAScript WhiteSpace and LineTerminator\<close>
  "isWhiteSpace c =
     (c = 9 \<or> c = 10 \<or> c = 11 \<or> c = 12 \<or> c = 13 \<or> c = 32 \<or> c = 160 \<or> c = 5760
      \<or> (8192 \<le> c \<and> c \<le> 8202) \<or> c = 8232 \<or> c = 8233 \<or> c = 8239 \<or> c = 8287
      \<or> c = 12288 \<or> c = 65279)"

definition trim :: "jsstring \<Rightarrow> jsstring" where
  "trim s = rev (dropWhile isWhiteSpace (rev (dropWhile isWhiteSpace s)))"

definition lookup_or :: "(string \<times> real) list \<Rightarrow> string \<Rightarrow> real \<Rightarrow> real" where
  \<comment> \<open>\<open>table[key] || dflt\<close> on an object literal of numbers: a missing key gives
      \<open>undefined\<close> and a stored \<open>0\<close> is falsy, both fall to the default\<close>
  "lookup_or table key dflt =
     (case map_of table key of None \<Rightarrow> dflt | Some v \<Rightarrow> if v = 0 then dflt else v)"

definition lookup_label :: "(string \<times> string) list \<Rightarrow> string \<Rightarrow> string \<Rightarrow> string" where
  \<comment> \<open>\<open>table[key] || dflt\<close> on an object literal of strings: the empty string is falsy\<close>
  "lookup_label table key dflt =
     (case map_of table key of None \<Rightarrow> dflt | Some v \<Rightarrow> if v = [] then dflt else v)"

section \<open>Configuration (\<open>src/config.js\<close>)\<close>

definition MAX_MESSAGE_LENGTH :: nat where
  "MAX_MESSAGE_LENGTH = 1000"

definition TRANSMISSION_METHODS :: "string list" where
  "TRANSMISSION_METHODS =
     [''QUANTUM_TUNNELING'', ''VIRTUAL_GSM_SIMULATION'', ''AI_OPTIMIZED_ROUTING'',
      ''DIRECT_SOCKET_CONNECTION'', ''WAVE_FUNCTION_TRANSMISSION'']"

section \<open>Validation and the optimizer's pure functions\<close>

definition countryCodes :: "(jsstring \<times> string) list" where
  \<comment> \<open>the object literal of \<open>detectCountry\<close>; \<open>Object.entries\<close> lists its keys in the
      order written, none of them being an array index\<close>
  "countryCodes =
     [(js ''+92'', ''PAKISTAN''), (js ''+1'', ''USA''), (js ''+44'', ''UK''),
      (js ''+971'', ''UAE''), (js ''+966'', ''SAUDI_ARABIA''), (js ''+91'', ''INDIA''),
      (js ''+86'', ''CHINA'')]"

fun detectCountry_loop :: "(jsstring \<times> string) list \<Rightarrow> jsstring \<Rightarrow> string" where
  "detectCountry_loop [] phoneNumber = ''INTERNATIONAL''"
| "detectCountry_loop ((code, country) # rest) phoneNumber =
     (if startsWith phoneNumber code then country
      else detectCountry_loop rest phoneNumber)"

definition detectCountry :: "jsstring \<Rightarrow> string" where
  "detectCountry phoneNumber = detectCountry_loop countryCodes phoneNumber"

definition isDigit :: "nat \<Rightarrow> bool" where
  "isDigit c = (48 \<le> c \<and> c \<le> 57)"

definition phoneRegex_test :: "jsstring \<Rightarrow> bool" where
  \<comment> \<open>\<open>/^\+[1-9]\d{10,14}$/.test(s)\<close>: a plus sign, a digit from 1 to 9, then 10 to 14
      digits, and nothing else\<close>
  "phoneRegex_test s =
     (case s of
        c0 # d # ds \<Rightarrow>
          c0 = 43 \<and> 49 \<le> d \<and> d \<le> 57 \<and> 10 \<le> length ds \<and> length ds \<le> 14
          \<and> list_all isDigit ds
      | _ \<Rightarrow> False)"

datatype validation_message =
  InvalidPhoneFormat | PhoneAccepted | MessageEmpty | MessageTooLong nat | MessageAccepted

record phone_validation =
  pv_valid :: bool
  pv_message :: validation_message
  pv_country :: string

definition validatePhoneNumber :: "jsstring \<Rightarrow> phone_validation" where
  "validatePhoneNumber phoneNumber =
     (if \<not> phoneRegex_test phoneNumber
      then \<lparr>pv_valid = False, pv_message = InvalidPhoneFormat, pv_country = ''UNKNOWN''\<rparr>
      else \<lparr>pv_valid = True, pv_message = PhoneAccepted,
             pv_country = detectCountry phoneNumber\<rparr>)"

record message_validation =
  mv_valid :: bool
  mv_message :: validation_message

definition validateMessage :: "jsstring \<Rightarrow> message_validation" where
  "validateMessage message =
     (if message = [] \<or> length (trim message) = 0
      then \<lparr>mv_valid = False, mv_message = MessageEmpty\<rparr>
      else if length message > MAX_MESSAGE_LENGTH
      then \<lparr>mv_valid = False, mv_message = MessageTooLong MAX_MESSAGE_LENGTH\<rparr>
      else \<lparr>mv_valid = True, mv_message = MessageAccepted\<rparr>)"

function splitMessage_loop :: "'a list \<Rightarrow> nat \<Rightarrow> 'a list list \<Rightarrow> 'a list list" where
  \<comment> \<open>\<open>for (let i = 0; i < message.length; i += maxLength) parts.push(...)\<close>\<close>
  "splitMessage_loop message i parts =
     (if i < length message
      then splitMessage_loop message (i + 160) (parts @ [substring message i (i + 160)])
      else parts)"
  by pat_completeness auto
termination
  by (relation "measure (\<lambda>(message, i, parts). length message - i)") auto

declare splitMessage_loop.simps [simp del]

definition splitMessage :: "'a list \<Rightarrow> 'a list list" where
  "splitMessage message = splitMessage_loop message 0 []"

definition detectEncoding :: "jsstring \<Rightarrow> string" where
  "detectEncoding message =
     (if list_ex (\<lambda>c. c > 255) message then ''UNICODE''
      else if list_ex (\<lambda>c. c > 127) message then ''GSM_EXTENDED''
      else ''GSM_7BIT'')"

definition countryPriority :: "(string \<times> real) list" where
  "countryPriority =
     [(''PAKISTAN'', 1.2), (''USA'', 1.1), (''UAE'', 1.0), (''SAUDI_ARABIA'', 1.0),
      (''INTERNATIONAL'', 0.9)]"

definition urgentWords :: "jsstring list" where
  "urgentWords = [js ''urgent'', js ''emergency'', js ''asap'', js ''immediately'']"

definition calculatePriority :: "jsstring \<Rightarrow> jsstring \<Rightarrow> real" where
  "calculatePriority phoneNumber message =
     (let country = detectCountry phoneNumber;
          priority = 1 * lookup_or countryPriority country 1.0;
          lowerMessage = toLowerCase message;
          priority = fold (\<lambda>word p. if includes_js lowerMessage word then p * 1.5 else p)
                       urgentWords priority
      in min 3 priority)"

definition routes :: "(string \<times> string) list" where
  "routes =
     [(''PAKISTAN'', ''QUANTUM_PAKISTAN_HUB''), (''USA'', ''SATELLITE_US_NET''),
      (''UAE'', ''MIDDLE_EAST_HUB''), (''SAUDI_ARABIA'', ''ARABIAN_NETWORK''),
      (''INTERNATIONAL'', ''GLOBAL_AI_ROUTING'')]"

definition calculateBestRoute :: "jsstring \<Rightarrow> string" where
  "calculateBestRoute phoneNumber =
     lookup_label routes (detectCountry phoneNumber) ''DEFAULT_AI_ROUTE''"

definition calculateTransmissionWindow :: "nat \<Rightarrow> string" where
  \<comment> \<open>the argument is \<open>new Date().getHours()\<close>\<close>
  "calculateTransmissionWindow hour =
     (if hour \<ge> 1 \<and> hour \<le> 5 then ''OPTIMAL_NIGHT_WINDOW''
      else if hour \<ge> 13 \<and> hour \<le> 17 then ''PEAK_AVOIDANCE_WINDOW''
      else ''STANDARD_WINDOW'')"

definition countryProbabilities :: "(string \<times> real) list" where
  "countryProbabilities =
     [(''PAKISTAN'', 0.95), (''USA'', 0.90), (''UAE'', 0.92), (''SAUDI_ARABIA'', 0.91),
      (''INTERNATIONAL'', 0.80)]"

definition calculateSuccessProbability :: "jsstring \<Rightarrow> real" where
  "calculateSuccessProbability phoneNumber =
     (let probability = 0.85;
          country = detectCountry phoneNumber;
          probability = probability * lookup_or countryProbabilities country 0.85;
          probability = probability + 0.1
      in min 0.99 probability)"

section \<open>Exceptions\<close>

text \<open>
  The only exceptions the modelled code can raise are \<open>TypeError\<close>s of the engine: a
  property read on \<open>undefined\<close> (\<open>undefined.startsWith\<close>, \<open>undefined.length\<close>), a
  property written on \<open>undefined\<close> (\<open>undefined.step = ...\<close>), a call of \<open>this.name\<close>
  where the class has no method \<open>name\<close>, and \<open>reduce\<close> on an empty array. The text of \<open>error.message\<close> is the engine's and is a
  function of the error, so the error itself stands for it. Faults of the file system and
  of the chat transport are outside the model.
\<close>

datatype error =
    ReadPropertyOfUndefined string
  | SetPropertyOfUndefined string
  | NotAFunction string
  | ReduceOfEmptyArray

section \<open>Transmission optimizer\<close>

record optimization =
  opt_phoneNumber :: jsstring
  opt_country :: string
  opt_messageLength :: nat
  opt_parts :: nat
  opt_encoding :: string
  opt_priority :: real
  opt_bestRoute :: string
  opt_transmissionWindow :: string
  opt_successProbability :: real

definition optimizeTransmission ::
  "nat \<Rightarrow> jsstring option \<Rightarrow> jsstring option \<Rightarrow> error + optimization" where
  \<comment> \<open>The arguments come from \<open>session.data\<close>, where a field never written is
      \<open>undefined\<close> (\<open>None\<close>). The object literal is evaluated field by field:
      \<open>detectCountry(undefined)\<close> raises first, then \<open>undefined.length\<close>.\<close>
  "optimizeTransmission hour phoneNumber message =
     (case phoneNumber of
        None \<Rightarrow> Inl (ReadPropertyOfUndefined ''startsWith'')
      | Some p \<Rightarrow>
          (case message of
             None \<Rightarrow> Inl (ReadPropertyOfUndefined ''length'')
           | Some m \<Rightarrow>
               Inr \<lparr>opt_phoneNumber = p,
                    opt_country = detectCountry p,
                    opt_messageLength = length m,
                    opt_parts = length (splitMessage m),
                    opt_encoding = detectEncoding m,
                    opt_priority = calculatePriority p m,
                    opt_bestRoute = calculateBestRoute p,
                    opt_transmissionWindow = calculateTransmissionWindow hour,
                    opt_successProbability = calculateSuccessProbability p\<rparr>))"

definition scoreTransmissionMethod :: "real \<Rightarrow> string \<Rightarrow> optimization \<Rightarrow> real" where
  \<comment> \<open>the first argument is the value \<open>Math.random()\<close> returns in this call\<close>
  "scoreTransmissionMethod random method optimization =
     (let score = 0.5;
          score =
            (if method = ''QUANTUM_TUNNELING'' then
               (let score = score + 0.3
                in if opt_country optimization = ''PAKISTAN'' then score + 0.1 else score)
             else if method = ''VIRTUAL_GSM_SIMULATION'' then
               (let score = score + 0.25
                in if opt_messageLength optimization > 160 then score + 0.15 else score)
             else if method = ''AI_OPTIMIZED_ROUTING'' then
               (let score = score + 0.2
                in if opt_priority optimization > 1 then score + 0.2 else score)
             else if method = ''DIRECT_SOCKET_CONNECTION'' then score + 0.15
             else if method = ''WAVE_FUNCTION_TRANSMISSION'' then score + 0.4
             else score);
          score = score + (random * 0.2 - 0.1)
      in min 1 (max 0 score))"

fun map_scores :: "(nat \<Rightarrow> real) \<Rightarrow> nat \<Rightarrow> string list \<Rightarrow> optimization \<Rightarrow> (string \<times> real) list" where
  \<comment> \<open>\<open>methods.map(method => ({method, score: ...}))\<close>: the method at index \<open>i\<close> is scored
      with the \<open>i\<close>-th draw of the random source\<close>
  "map_scores rnd i [] optimization = []"
| "map_scores rnd i (method # methods) optimization =
     (method, scoreTransmissionMethod (rnd i) method optimization)
       # map_scores rnd (Suc i) methods optimization"

definition reduce_best :: "(string \<times> real) list \<Rightarrow> error + (string \<times> real)" where
  \<comment> \<open>\<open>scores.reduce((best, current) => current.score > best.score ? current : best)\<close>,
      with no initial value\<close>
  "reduce_best scores =
     (case scores of
        [] \<Rightarrow> Inl ReduceOfEmptyArray
      | first # rest \<Rightarrow>
          Inr (fold (\<lambda>current best. if snd current > snd best then current else best)
                 rest first))"

definition selectBestTransmissionMethod :: "(nat \<Rightarrow> real) \<Rightarrow> optimization \<Rightarrow> error + string" where
  "selectBestTransmissionMethod rnd optimization =
     (case reduce_best (map_scores rnd 0 TRANSMISSION_METHODS optimization) of
        Inl e \<Rightarrow> Inl e
      | Inr best \<Rightarrow> Inr (fst best))"

section \<open>Transmission executor\<close>

fun calculateHash_loop :: "jsstring \<Rightarrow> 32 word \<Rightarrow> 32 word" where
  \<comment> \<open>\<open>hash = ((hash << 5) - hash) + char; hash = hash & hash\<close>: the bitwise operators
      bring the value back to a signed 32-bit integer in every round\<close>
  "calculateHash_loop [] hash = hash"
| "calculateHash_loop (c # cs) hash =
     calculateHash_loop cs ((push_bit 5 hash - hash) + of_nat c)"

definition calculateHash :: "jsstring option \<Rightarrow> error + int" where
  \<comment> \<open>the number that \<open>toString(36)\<close> then prints; \<open>data.length\<close> raises on
      \<open>undefined\<close>\<close>
  "calculateHash data =
     (case data of
        None \<Rightarrow> Inl (ReadPropertyOfUndefined ''length'')
      | Some d \<Rightarrow> Inr (sint (calculateHash_loop d 0)))"

record encrypted_data =
  enc_encryptedId :: nat
  enc_algorithm :: string
  enc_keySize :: nat
  enc_timestamp :: nat
  enc_dataHash :: int

definition applyQuantumEncryption :: "nat \<Rightarrow> jsstring option \<Rightarrow> error + encrypted_data" where
  \<comment> \<open>the first argument is \<open>Date.now()\<close>\<close>
  "applyQuantumEncryption now message =
     (case calculateHash message of
        Inl e \<Rightarrow> Inl e
      | Inr h \<Rightarrow>
          Inr \<lparr>enc_encryptedId = now, enc_algorithm = ''QUANTUM_SHA512'', enc_keySize = 512,
               enc_timestamp = now, enc_dataHash = h\<rparr>)"

definition times :: "(string \<times> nat) list" where
  "times =
     [(''QUANTUM_TUNNELING'', 800), (''VIRTUAL_GSM_SIMULATION'', 1200),
      (''AI_OPTIMIZED_ROUTING'', 600), (''DIRECT_SOCKET_CONNECTION'', 1000),
      (''WAVE_FUNCTION_TRANSMISSION'', 400)]"

definition getTransmissionTime :: "string \<Rightarrow> nat" where
  "getTransmissionTime method =
     (case map_of times method of None \<Rightarrow> 1000 | Some t \<Rightarrow> if t = 0 then 1000 else t)"

definition route_corpus :: "string list" where
  \<comment> \<open>the arrows of the source's route strings are written \<open>->\<close>\<close>
  "route_corpus =
     [''QUANTUM_HUB_1 -> SATELLITE_NET -> GROUND_STATION -> TARGET'',
      ''VIRTUAL_GSM_NETWORK -> AI_ROUTER -> DESTINATION'',
      ''DIRECT_WAVE -> QUANTUM_RELAY -> FINAL_NODE'',
      ''AI_OPTIMIZED_PATH -> MULTI_HOP -> ENDPOINT'']"

definition generateRoute :: "real \<Rightarrow> string option" where
  \<comment> \<open>\<open>routes[Math.floor(Math.random() * routes.length)]\<close>; an index outside the array
      reads \<open>undefined\<close>\<close>
  "generateRoute random =
     (let i = \<lfloor>random * real (length route_corpus)\<rfloor>
      in if 0 \<le> i \<and> nat i < length route_corpus then Some (route_corpus ! nat i) else None)"

definition networks :: "(jsstring \<times> string) list" where
  "networks =
     [(js ''+92'', ''PAKISTAN_QUANTUM_NET''), (js ''+1'', ''USA_GLOBAL_NET''),
      (js ''+44'', ''UK_EURO_NET''), (js ''+971'', ''UAE_MIDEAST_NET''),
      (js ''+966'', ''SAUDI_ARAB_NET'')]"

fun simulateNetwork_loop :: "(jsstring \<times> string) list \<Rightarrow> jsstring \<Rightarrow> string" where
  "simulateNetwork_loop [] phoneNumber = ''GLOBAL_AI_NETWORK''"
| "simulateNetwork_loop ((prefix, network) # rest) phoneNumber =
     (if startsWith phoneNumber prefix then network
      else simulateNetwork_loop rest phoneNumber)"

definition simulateNetwork :: "jsstring option \<Rightarrow> error + string" where
  \<comment> \<open>\<open>phoneNumber.startsWith\<close> raises on \<open>undefined\<close>\<close>
  "simulateNetwork phoneNumber =
     (case phoneNumber of
        None \<Rightarrow> Inl (ReadPropertyOfUndefined ''startsWith'')
      | Some p \<Rightarrow> Inr (simulateNetwork_loop networks p))"

text \<open>
  The clock and the random source of one call of \<open>processSMSTransmission\<close>: the value
  of \<open>Date.now()\<close> and the hour when the call starts, and the values \<open>Math.random()\<close>
  returns, in the order the call draws them (the transmission id, one draw per scored
  method, the route, the signal strength, the entanglement flag). The only wait of the
  call is the timer of \<open>transmitSMS\<close>; the clock is taken to stand still otherwise and to
  advance by exactly the timer's delay.
\<close>

record env =
  env_now :: nat
  env_hour :: nat
  env_random_id :: real
  env_random_score :: "nat \<Rightarrow> real"
  env_random_route :: real
  env_random_signal :: real
  env_random_entanglement :: real

record transmission_result =
  tr_success :: bool
  tr_route :: "string option"
  tr_network :: string
  tr_signalStrength :: int
  tr_deliveryTime :: nat
  tr_transmissionMethod :: string
  tr_quantumEntanglement :: string

definition transmitSMS ::
  "env \<Rightarrow> jsstring option \<Rightarrow> encrypted_data \<Rightarrow> string \<Rightarrow> optimization
   \<Rightarrow> error + transmission_result" where
  "transmitSMS env phoneNumber encryptedData method optimization =
     (let transmissionTime = getTransmissionTime method;
          route = generateRoute (env_random_route env)
      in case simulateNetwork phoneNumber of
           Inl e \<Rightarrow> Inl e
         | Inr network \<Rightarrow>
             Inr \<lparr>tr_success = True,
                  tr_route = route,
                  tr_network = network,
                  tr_signalStrength = \<lfloor>env_random_signal env * 100\<rfloor>,
                  tr_deliveryTime = env_now env + transmissionTime + transmissionTime,
                  tr_transmissionMethod = method,
                  tr_quantumEntanglement =
                    (if env_random_entanglement env > 0.7 then ''ESTABLISHED''
                     else ''PARTIAL'')\<rparr>)"

type_synonym transmission_id = "nat \<times> real"
  \<comment> \<open>\<open>TX_<Date.now()>_<Math.random() in base 36>\<close>: the id is kept as the pair it
      is printed from\<close>

record sms_result =
  res_success :: bool
  res_transmissionId :: transmission_id
  res_phoneNumber :: "jsstring option"
  res_message :: "jsstring option"
  res_method :: string
  res_timeTaken :: nat
  res_parts :: "nat option"
  res_status :: string
  res_route :: "string option"
  res_network :: "string option"
  res_signalStrength :: "int option"
  res_deliveryTime :: "nat option"
  res_transmissionMethod :: "string option"
  res_quantumEntanglement :: "string option"
  res_error :: "error option"

definition processSMSTransmission_try ::
  "env \<Rightarrow> jsstring option \<Rightarrow> jsstring option \<Rightarrow> error + sms_result" where
  \<comment> \<open>the body of the \<open>try\<close> block: the first exception of a step ends it\<close>
  "processSMSTransmission_try env phoneNumber message =
     (case optimizeTransmission (env_hour env) phoneNumber message of
        Inl e \<Rightarrow> Inl e
      | Inr optimization \<Rightarrow>
     (case selectBestTransmissionMethod (env_random_score env) optimization of
        Inl e \<Rightarrow> Inl e
      | Inr method \<Rightarrow>
     (case applyQuantumEncryption (env_now env) message of
        Inl e \<Rightarrow> Inl e
      | Inr encryptedData \<Rightarrow>
     (case transmitSMS env phoneNumber encryptedData method optimization of
        Inl e \<Rightarrow> Inl e
      | Inr transmissionResult \<Rightarrow>
     (case message of
        None \<Rightarrow> Inl (ReadPropertyOfUndefined ''substring'')
      | Some m \<Rightarrow>
          Inr \<lparr>res_success = tr_success transmissionResult,
               res_transmissionId = (env_now env, env_random_id env),
               res_phoneNumber = phoneNumber,
               res_message =
                 Some (substring m 0 50 @ (if length m > 50 then js ''...'' else [])),
               res_method = method,
               res_timeTaken = getTransmissionTime method,
               res_parts = Some (opt_parts optimization),
               res_status = ''DELIVERED'',
               res_route = tr_route transmissionResult,
               res_network = Some (tr_network transmissionResult),
               res_signalStrength = Some (tr_signalStrength transmissionResult),
               res_deliveryTime = Some (tr_deliveryTime transmissionResult),
               res_transmissionMethod = Some (tr_transmissionMethod transmissionResult),
               res_quantumEntanglement = Some (tr_quantumEntanglement transmissionResult),
               res_error = None\<rparr>)))))"

definition processSMSTransmission ::
  "env \<Rightarrow> jsstring option \<Rightarrow> jsstring option \<Rightarrow> error + sms_result" where
  \<comment> \<open>\<open>Inl\<close> would be an exception leaving the function (a rejected promise). The
      statements before the \<open>try\<close> build the id and print the number; they raise on no
      string and not on \<open>undefined\<close>. In the success object the spread
      \<open>...transmissionResult\<close> comes last, so its \<open>success\<close> and \<open>route\<close> are the
      ones kept.\<close>
  "processSMSTransmission env phoneNumber message =
     (case processSMSTransmission_try env phoneNumber message of
        Inr result \<Rightarrow> Inr result
      | Inl e \<Rightarrow>
          Inr \<lparr>res_success = False,
               res_transmissionId = (env_now env, env_random_id env),
               res_phoneNumber = phoneNumber,
               res_message = None,
               res_method = ''FAILED'',
               res_timeTaken = 0,
               res_parts = None,
               res_status = ''FAILED'',
               res_route = None,
               res_network = None,
               res_signalStrength = None,
               res_deliveryTime = None,
               res_transmissionMethod = None,
               res_quantumEntanglement = None,
               res_error = Some e\<rparr>)"

section \<open>Sessions, counters and the collections on disk\<close>

type_synonym userId = int

datatype session_step =
    awaiting_number | awaiting_message | confirm_send
  | awaiting_bulk_numbers | awaiting_bulk_messages
  | awaiting_schedule_time | awaiting_schedule_message

datatype session_mode = SINGLE | BULK | SCHEDULED

record session_data =
  sd_phoneNumber :: "jsstring option"
  sd_country :: "string option"
  sd_message :: "jsstring option"
  sd_messageParts :: "jsstring list option"

record session =
  step :: session_step
  mode :: session_mode
  data :: session_data
  timestamp :: nat

definition empty_data :: session_data where
  \<comment> \<open>\<open>data: {}\<close>: every field reads \<open>undefined\<close>\<close>
  "empty_data =
     \<lparr>sd_phoneNumber = None, sd_country = None, sd_message = None, sd_messageParts = None\<rparr>"

record system_stats =
  totalSMS :: int
  successful :: int
  failed :: int
  activeUsers :: int
  queueSize :: int
  startTime :: nat

record queued_transmission =
  q_phoneNumber :: "jsstring option"
  q_message :: "jsstring option"

record log_entry =
  log_transmissionId :: transmission_id
  log_phoneNumber :: "jsstring option"
  log_success :: bool
  log_timestamp :: nat
  log_method :: string

record health_sample =
  health_memory :: nat
  health_uptime :: nat
  health_sessions :: nat
  health_queue :: nat
  health_timestamp :: nat

text \<open>
  A JavaScript \<open>Map\<close> keeps its keys in insertion order; it is an association list with
  distinct keys. \<open>Map_set\<close> overwrites a key in place and appends a new one.
\<close>

definition Map_get :: "('k \<times> 'v) list \<Rightarrow> 'k \<Rightarrow> 'v option" where
  "Map_get m k = map_of m k"

definition Map_set :: "('k \<times> 'v) list \<Rightarrow> 'k \<Rightarrow> 'v \<Rightarrow> ('k \<times> 'v) list" where
  "Map_set m k v =
     (if k \<in> fst ` set m then map (\<lambda>(k', v'). if k' = k then (k, v) else (k', v')) m
      else m @ [(k, v)])"

definition Map_delete :: "('k \<times> 'v) list \<Rightarrow> 'k \<Rightarrow> ('k \<times> 'v) list" where
  "Map_delete m k = filter (\<lambda>(k', v'). k' \<noteq> k) m"

text \<open>
  The state of the gateway object, with the files it reads back: \<open>data/sms_logs.json\<close>
  (\<open>None\<close> while the file does not exist), \<open>logs/health.json\<close>, the detail files
  \<open>logs/transmission_<id>.json\<close>, and the retries that \<open>sendSMS\<close> has handed to
  \<open>setTimeout\<close> and that have not fired yet. \<open>activeTransmissions\<close> is never read or
  written after the constructor and is left out.
\<close>

record gateway =
  systemStatus :: string
  userSessions :: "(userId \<times> session) list"
  transmissionQueue :: "queued_transmission list"
  systemStats :: system_stats
  sms_logs :: "log_entry list option"
  health_log :: "health_sample list option"
  transmission_logs :: "(transmission_id \<times> sms_result \<times> system_stats) list"
  retry_timers :: "session_data list"

definition new_gateway :: "nat \<Rightarrow> gateway" where
  \<comment> \<open>the gateway when \<open>initialize\<close> has completed on empty directories\<close>
  "new_gateway now =
     \<lparr>systemStatus = ''OPERATIONAL'',
      userSessions = [],
      transmissionQueue = [],
      systemStats = \<lparr>totalSMS = 0, successful = 0, failed = 0, activeUsers = 0,
                      queueSize = 0, startTime = now\<rparr>,
      sms_logs = Some [],
      health_log = None,
      transmission_logs = [],
      retry_timers = []\<rparr>"

section \<open>Bounded log store\<close>

definition slice_last :: "nat \<Rightarrow> 'a list \<Rightarrow> 'a list" where
  \<comment> \<open>\<open>xs.slice(-n)\<close> for \<open>n > 0\<close>: the last \<open>n\<close> elements, all of them when there
      are fewer\<close>
  "slice_last n xs = drop (length xs - n) xs"

definition logTransmission :: "sms_result \<Rightarrow> nat \<Rightarrow> gateway \<Rightarrow> gateway" where
  \<comment> \<open>the second argument is the clock (\<open>new Date()\<close>)\<close>
  "logTransmission result now g =
     (let logEntry = (result, systemStats g);
          g = g\<lparr>transmission_logs :=
                  Map_set (transmission_logs g) (res_transmissionId result) logEntry\<rparr>;
          logs = (case sms_logs g of None \<Rightarrow> [] | Some stored \<Rightarrow> stored);
          logs = logs @ [\<lparr>log_transmissionId = res_transmissionId result,
                           log_phoneNumber = res_phoneNumber result,
                           log_success = res_success result,
                           log_timestamp = now,
                           log_method = res_method result\<rparr>];
          logs = (if length logs > 10000 then slice_last 10000 logs else logs)
      in g\<lparr>sms_logs := Some logs\<rparr>)"

definition checkSystemHealth :: "nat \<Rightarrow> nat \<Rightarrow> nat \<Rightarrow> gateway \<Rightarrow> gateway" where
  \<comment> \<open>the arguments are \<open>process.memoryUsage()\<close>, \<open>process.uptime()\<close> and
      \<open>Date.now()\<close>\<close>
  "checkSystemHealth memory uptime now g =
     (let health = \<lparr>health_memory = memory, health_uptime = uptime,
                     health_sessions = length (userSessions g),
                     health_queue = length (transmissionQueue g),
                     health_timestamp = now\<rparr>;
          healthLog = (case health_log g of None \<Rightarrow> [] | Some stored \<Rightarrow> stored);
          healthLog = healthLog @ [health];
          healthLog = (if length healthLog > 1000 then slice_last 1000 healthLog
                       else healthLog)
      in g\<lparr>health_log := Some healthLog\<rparr>)"

fun logTransmission_all :: "(sms_result \<times> nat) list \<Rightarrow> gateway \<Rightarrow> gateway" where
  \<comment> \<open>a sequence of appends to the transmission log\<close>
  "logTransmission_all [] g = g"
| "logTransmission_all ((result, now) # rest) g =
     logTransmission_all rest (logTransmission result now g)"

fun checkSystemHealth_all :: "(nat \<times> nat \<times> nat) list \<Rightarrow> gateway \<Rightarrow> gateway" where
  \<comment> \<open>a sequence of appends to the health log\<close>
  "checkSystemHealth_all [] g = g"
| "checkSystemHealth_all ((memory, uptime, now) # rest) g =
     checkSystemHealth_all rest (checkSystemHealth memory uptime now g)"

definition stored_logs :: "gateway \<Rightarrow> log_entry list" where
  \<comment> \<open>what reading \<open>sms_logs.json\<close> back gives, a missing file counting as empty\<close>
  "stored_logs g = (case sms_logs g of None \<Rightarrow> [] | Some stored \<Rightarrow> stored)"

definition stored_health :: "gateway \<Rightarrow> health_sample list" where
  "stored_health g = (case health_log g of None \<Rightarrow> [] | Some stored \<Rightarrow> stored)"

definition log_entry_of :: "sms_result \<times> nat \<Rightarrow> log_entry" where
  \<comment> \<open>the entry that \<open>logTransmission\<close> pushes for a result at a time\<close>
  "log_entry_of a =
     \<lparr>log_transmissionId = res_transmissionId (fst a),
      log_phoneNumber = res_phoneNumber (fst a),
      log_success = res_success (fst a),
      log_timestamp = snd a,
      log_method = res_method (fst a)\<rparr>"

definition health_sample_of :: "gateway \<Rightarrow> nat \<times> nat \<times> nat \<Rightarrow> health_sample" where
  \<comment> \<open>the sample that \<open>checkSystemHealth\<close> pushes\<close>
  "health_sample_of g a =
     \<lparr>health_memory = fst a, health_uptime = fst (snd a),
      health_sessions = length (userSessions g),
      health_queue = length (transmissionQueue g),
      health_timestamp = snd (snd a)\<rparr>"

section \<open>The conversation: replies, handlers and events\<close>

text \<open>
  What a handler sends to the chat is kept by kind, with the values the text is built
  from; the wording and the keyboards of the messages are the transport's side.
\<close>

datatype reply =
    Reply_StartSingle
  | Reply_StartBulk
  | Reply_StartSchedule
  | Reply_InvalidPhoneNumber validation_message
  | Reply_PhoneNumberAccepted jsstring string
  | Reply_InvalidMessage validation_message
  | Reply_MessagePreview session_data "string option"
  | Reply_CallbackAnswered
  | Reply_Prompt string
  | Reply_QuickTemplates
  | Reply_Cancelled
  | Reply_SessionExpired
  | Reply_Processing
  | Reply_TransmissionSuccessful sms_result
  | Reply_TransmissionRequiresRetry sms_result
  | Reply_CriticalTransmissionError error
  | Reply_AutoRecoverySuccessful transmission_id

text \<open>
  A handler runs to its end or to an exception; either way the replies it has sent and
  the state it has written so far remain. Each handler is taken as one step: the
  interleaving of other handlers at its \<open>await\<close>s is not modelled.
\<close>

record outcome =
  replies :: "reply list"
  raised :: "error option"
  after :: gateway


definition new_session :: "session_step \<Rightarrow> session_mode \<Rightarrow> nat \<Rightarrow> session" where
  "new_session st md now = \<lparr>step = st, mode = md, data = empty_data, timestamp = now\<rparr>"

definition initiateSingleSMS :: "userId \<Rightarrow> nat \<Rightarrow> gateway \<Rightarrow> outcome" where
  "initiateSingleSMS userId now g =
     \<lparr>replies = [Reply_StartSingle], raised = None,
      after = g\<lparr>userSessions :=
                  Map_set (userSessions g) userId (new_session awaiting_number SINGLE now)\<rparr>\<rparr>"

definition initiateBulkSMS :: "userId \<Rightarrow> nat \<Rightarrow> gateway \<Rightarrow> outcome" where
  "initiateBulkSMS userId now g =
     \<lparr>replies = [Reply_StartBulk], raised = None,
      after = g\<lparr>userSessions :=
                  Map_set (userSessions g) userId
                    (new_session awaiting_bulk_numbers BULK now)\<rparr>\<rparr>"

definition initiateScheduleSMS :: "userId \<Rightarrow> nat \<Rightarrow> gateway \<Rightarrow> outcome" where
  "initiateScheduleSMS userId now g =
     \<lparr>replies = [Reply_StartSchedule], raised = None,
      after = g\<lparr>userSessions :=
                  Map_set (userSessions g) userId
                    (new_session awaiting_schedule_time SCHEDULED now)\<rparr>\<rparr>"

definition processPhoneNumber ::
  "userId \<Rightarrow> jsstring \<Rightarrow> session \<Rightarrow> real \<Rightarrow> gateway \<Rightarrow> outcome" where
  \<comment> \<open>\<open>session\<close> is the object stored under \<open>userId\<close>: writing its fields writes the
      map's entry. The random draw is not used here.\<close>
  "processPhoneNumber userId phoneNumber sess random g =
     (let validation = validatePhoneNumber phoneNumber
      in if \<not> pv_valid validation
         then \<lparr>replies = [Reply_InvalidPhoneNumber (pv_message validation)],
               raised = None, after = g\<rparr>
         else
           (let sess = sess\<lparr>data := (data sess)\<lparr>sd_phoneNumber := Some phoneNumber,
                                                sd_country := Some (pv_country validation)\<rparr>,
                             step := awaiting_message\<rparr>
            in \<lparr>replies = [Reply_PhoneNumberAccepted phoneNumber (pv_country validation)],
                raised = None,
                after = g\<lparr>userSessions := Map_set (userSessions g) userId sess\<rparr>\<rparr>))"

definition selectTransmissionMethod :: "real \<Rightarrow> string option" where
  \<comment> \<open>\<open>methods[Math.floor(Math.random() * methods.length)]\<close>, for the preview only\<close>
  "selectTransmissionMethod random =
     (let i = \<lfloor>random * real (length TRANSMISSION_METHODS)\<rfloor>
      in if 0 \<le> i \<and> nat i < length TRANSMISSION_METHODS
         then Some (TRANSMISSION_METHODS ! nat i) else None)"

definition processMessage ::
  "userId \<Rightarrow> jsstring \<Rightarrow> session \<Rightarrow> real \<Rightarrow> gateway \<Rightarrow> outcome" where
  "processMessage userId text sess random g =
     (let validation = validateMessage text
      in if \<not> mv_valid validation
         then \<lparr>replies = [Reply_InvalidMessage (mv_message validation)],
               raised = None, after = g\<rparr>
         else
           (let sess = sess\<lparr>data := (data sess)\<lparr>sd_message := Some text,
                                                sd_messageParts := Some (splitMessage text)\<rparr>,
                             step := confirm_send\<rparr>
            in \<lparr>replies = [Reply_MessagePreview (data sess) (selectTransmissionMethod random)],
                raised = None,
                after = g\<lparr>userSessions := Map_set (userSessions g) userId sess\<rparr>\<rparr>))"

definition class_methods :: "string list" where
  \<comment> \<open>the methods that \<open>class UnlimitedSMSGateway\<close> defines, in the order of the source\<close>
  "class_methods =
     [''constructor'', ''initialize'', ''createDirectories'', ''initDatabase'',
      ''startTelegramBot'', ''setupBotCommands'', ''initiateSingleSMS'', ''initiateBulkSMS'',
      ''initiateScheduleSMS'', ''handleTextMessage'', ''processPhoneNumber'',
      ''processMessage'', ''handleCallbackQuery'', ''sendSMS'', ''processSMSTransmission'',
      ''optimizeTransmission'', ''selectBestTransmissionMethod'',
      ''scoreTransmissionMethod'', ''applyQuantumEncryption'', ''transmitSMS'',
      ''getTransmissionTime'', ''generateRoute'', ''simulateNetwork'',
      ''validatePhoneNumber'', ''detectCountry'', ''validateMessage'', ''splitMessage'',
      ''detectEncoding'', ''calculatePriority'', ''calculateBestRoute'',
      ''calculateTransmissionWindow'', ''calculateSuccessProbability'', ''calculateHash'',
      ''retryTransmission'', ''logTransmission'', ''registerUser'', ''showSystemStatus'',
      ''showHelp'', ''showSettings'', ''showQuickTemplates'', ''countDatabaseEntries'',
      ''startTransmissionEngine'', ''processTransmissionQueue'', ''startMonitoring'',
      ''cleanupOldSessions'', ''backupSystem'', ''checkSystemHealth'',
      ''startAIOptimization'', ''optimizeTransmissionPaths'', ''learnFromTransmissions'',
      ''updateAIModels'', ''initiateSystemRecovery'', ''emergencyRecovery'',
      ''selectTransmissionMethod'']"

definition finished :: "reply list \<Rightarrow> gateway \<Rightarrow> outcome" where
  "finished rs g = \<lparr>replies = rs, raised = None, after = g\<rparr>"

definition throws :: "reply list \<Rightarrow> error \<Rightarrow> gateway \<Rightarrow> outcome" where
  "throws rs e g = \<lparr>replies = rs, raised = Some e, after = g\<rparr>"

definition text_step_methods ::
  "(string \<times> (userId \<Rightarrow> jsstring \<Rightarrow> session \<Rightarrow> real \<Rightarrow> gateway \<Rightarrow> outcome)) list" where
  \<comment> \<open>the class's methods of the shape \<open>(ctx, text, session)\<close>, by name\<close>
  "text_step_methods =
     [(''processPhoneNumber'', processPhoneNumber), (''processMessage'', processMessage)]"

definition call_text_step ::
  "string \<Rightarrow> userId \<Rightarrow> jsstring \<Rightarrow> session \<Rightarrow> real \<Rightarrow> gateway \<Rightarrow> outcome" where
  \<comment> \<open>\<open>await this.name(ctx, text, session)\<close>: a name the class does not define reads
      \<open>undefined\<close>, and calling it raises before anything else happens\<close>
  "call_text_step name userId text sess random g =
     (case map_of text_step_methods name of
        None \<Rightarrow> throws [] (NotAFunction name) g
      | Some m \<Rightarrow> m userId text sess random g)"

definition handleTextMessage :: "userId \<Rightarrow> jsstring \<Rightarrow> real \<Rightarrow> gateway \<Rightarrow> outcome" where
  \<comment> \<open>the switch has no case for \<open>confirm_send\<close>\<close>
  "handleTextMessage userId text random g =
     (case Map_get (userSessions g) userId of
        None \<Rightarrow> finished [] g
      | Some sess \<Rightarrow>
          (case step sess of
             awaiting_number \<Rightarrow> call_text_step ''processPhoneNumber'' userId text sess random g
           | awaiting_message \<Rightarrow> call_text_step ''processMessage'' userId text sess random g
           | awaiting_bulk_numbers \<Rightarrow>
               call_text_step ''processBulkNumbers'' userId text sess random g
           | awaiting_bulk_messages \<Rightarrow>
               call_text_step ''processBulkMessages'' userId text sess random g
           | awaiting_schedule_time \<Rightarrow>
               call_text_step ''processScheduleTime'' userId text sess random g
           | awaiting_schedule_message \<Rightarrow>
               call_text_step ''processScheduleMessage'' userId text sess random g
           | confirm_send \<Rightarrow> finished [] g))"

definition sendSMS_counters :: "sms_result \<Rightarrow> system_stats \<Rightarrow> system_stats" where
  \<comment> \<open>\<open>totalSMS++\<close>, then \<open>successful++\<close> or \<open>failed++\<close>\<close>
  "sendSMS_counters result stats =
     (let stats = stats\<lparr>totalSMS := totalSMS stats + 1\<rparr>
      in if res_success result then stats\<lparr>successful := successful stats + 1\<rparr>
         else stats\<lparr>failed := failed stats + 1\<rparr>)"

definition sendSMS_settled ::
  "userId \<Rightarrow> session \<Rightarrow> nat \<Rightarrow> error + sms_result \<Rightarrow> gateway \<Rightarrow> outcome" where
  \<comment> \<open>\<open>sendSMS\<close> from the point where \<open>await this.processSMSTransmission(...)\<close> has
      settled, with a result (\<open>Inr\<close>) or an exception (\<open>Inl\<close>); \<open>sess\<close> is the session
      read at the start and \<open>now\<close> the clock then. On a failed result the retry is handed to
      \<open>setTimeout\<close> with \<open>session.data\<close>. The \<open>catch\<close> block only prints and
      replies.\<close>
  "sendSMS_settled userId sess now settled g =
     (case settled of
        Inl e \<Rightarrow> finished [Reply_Processing, Reply_CriticalTransmissionError e] g
      | Inr result \<Rightarrow>
          (let g = g\<lparr>systemStats := sendSMS_counters result (systemStats g)\<rparr>;
               g = (if res_success result then g
                    else g\<lparr>retry_timers := retry_timers g @ [data sess]\<rparr>);
               resultMessage =
                 (if res_success result then Reply_TransmissionSuccessful result
                  else Reply_TransmissionRequiresRetry result);
               g = g\<lparr>userSessions := Map_delete (userSessions g) userId\<rparr>;
               g = logTransmission result (now + res_timeTaken result) g
           in finished [Reply_Processing, resultMessage] g))"

definition sendSMS :: "userId \<Rightarrow> env \<Rightarrow> gateway \<Rightarrow> outcome" where
  "sendSMS userId env g =
     (case Map_get (userSessions g) userId of
        None \<Rightarrow> finished [Reply_SessionExpired] g
      | Some sess \<Rightarrow>
          sendSMS_settled userId sess (env_now env)
            (processSMSTransmission env (sd_phoneNumber (data sess)) (sd_message (data sess)))
            g)"

definition retryTransmission_counters :: "sms_result \<Rightarrow> system_stats \<Rightarrow> system_stats" where
  \<comment> \<open>\<open>if (result.success) { successful++; failed--; }\<close>\<close>
  "retryTransmission_counters result stats =
     (if res_success result
      then stats\<lparr>successful := successful stats + 1, failed := failed stats - 1\<rparr>
      else stats)"

definition retryTransmission_settled ::
  "error + sms_result \<Rightarrow> gateway \<Rightarrow> (error + sms_result) \<times> gateway" where
  \<comment> \<open>\<open>retryTransmission\<close> from the point where its call of
      \<open>processSMSTransmission\<close> has settled; the \<open>catch\<close> block logs and throws the
      error again\<close>
  "retryTransmission_settled settled g =
     (case settled of
        Inl e \<Rightarrow> (Inl e, g)
      | Inr result \<Rightarrow>
          (Inr result,
           g\<lparr>systemStats := retryTransmission_counters result (systemStats g)\<rparr>))"

definition retryTransmission ::
  "session_data \<Rightarrow> env \<Rightarrow> gateway \<Rightarrow> (error + sms_result) \<times> gateway" where
  "retryTransmission smsData env g =
     retryTransmission_settled
       (processSMSTransmission env (sd_phoneNumber smsData) (sd_message smsData)) g"

definition retry_callback :: "(error + sms_result) \<times> gateway \<Rightarrow> outcome" where
  \<comment> \<open>the callback \<open>sendSMS\<close> gave to \<open>setTimeout\<close>, from the point where its
      \<open>await this.retryTransmission(session.data)\<close> has settled\<close>
  "retry_callback settled =
     (case settled of
        (Inl e, g') \<Rightarrow> throws [] e g'
      | (Inr retryResult, g') \<Rightarrow>
          finished
            (if res_success retryResult
             then [Reply_AutoRecoverySuccessful (res_transmissionId retryResult)]
             else []) g')"


definition retry_timer :: "env \<Rightarrow> gateway \<Rightarrow> outcome" where
  \<comment> \<open>the oldest pending retry fires: the timers have the same delay and fire in the
      order they were set\<close>
  "retry_timer env g =
     (case retry_timers g of
        [] \<Rightarrow> finished [] g
      | smsData # pending \<Rightarrow>
          retry_callback (retryTransmission smsData env (g\<lparr>retry_timers := pending\<rparr>)))"

definition showQuickTemplates :: "userId \<Rightarrow> env \<Rightarrow> gateway \<Rightarrow> outcome" where
  "showQuickTemplates userId env g = finished [Reply_QuickTemplates] g"

definition ctx_methods :: "(string \<times> (userId \<Rightarrow> env \<Rightarrow> gateway \<Rightarrow> outcome)) list" where
  \<comment> \<open>the class's methods of the shape \<open>(ctx)\<close> that a callback action may name\<close>
  "ctx_methods = [(''sendSMS'', sendSMS), (''showQuickTemplates'', showQuickTemplates)]"

definition call_ctx :: "string \<Rightarrow> userId \<Rightarrow> env \<Rightarrow> gateway \<Rightarrow> outcome" where
  \<comment> \<open>\<open>await this.name(ctx)\<close>\<close>
  "call_ctx name userId env g =
     (case map_of ctx_methods name of
        None \<Rightarrow> throws [] (NotAFunction name) g
      | Some m \<Rightarrow> m userId env g)"

definition set_step :: "userId \<Rightarrow> session_step \<Rightarrow> gateway \<Rightarrow> error + gateway" where
  \<comment> \<open>\<open>this.userSessions.get(userId).step = st\<close>\<close>
  "set_step userId st g =
     (case Map_get (userSessions g) userId of
        None \<Rightarrow> Inl (SetPropertyOfUndefined ''step'')
      | Some sess \<Rightarrow>
          Inr (g\<lparr>userSessions := Map_set (userSessions g) userId (sess\<lparr>step := st\<rparr>)\<rparr>))"

definition callback_prompt :: "string \<Rightarrow> userId \<Rightarrow> env \<Rightarrow> gateway \<Rightarrow> outcome" where
  \<comment> \<open>the cases that only edit the message text\<close>
  "callback_prompt label userId env g = finished [Reply_Prompt label] g"

definition callback_edit_message :: "userId \<Rightarrow> env \<Rightarrow> gateway \<Rightarrow> outcome" where
  "callback_edit_message userId env g =
     (case set_step userId awaiting_message g of
        Inl e \<Rightarrow> throws [] e g
      | Inr g' \<Rightarrow> finished [Reply_Prompt ''edit_message''] g')"

definition callback_change_number :: "userId \<Rightarrow> env \<Rightarrow> gateway \<Rightarrow> outcome" where
  "callback_change_number userId env g =
     (case set_step userId awaiting_number g of
        Inl e \<Rightarrow> throws [] e g
      | Inr g' \<Rightarrow> finished [Reply_Prompt ''change_number''] g')"

definition callback_manual_bulk :: "userId \<Rightarrow> env \<Rightarrow> gateway \<Rightarrow> outcome" where
  \<comment> \<open>here the text is edited before the step is written\<close>
  "callback_manual_bulk userId env g =
     (case set_step userId awaiting_bulk_numbers g of
        Inl e \<Rightarrow> throws [Reply_Prompt ''manual_bulk''] e g
      | Inr g' \<Rightarrow> finished [Reply_Prompt ''manual_bulk''] g')"

definition callback_cancel :: "userId \<Rightarrow> env \<Rightarrow> gateway \<Rightarrow> outcome" where
  "callback_cancel userId env g =
     finished [Reply_Cancelled] (g\<lparr>userSessions := Map_delete (userSessions g) userId\<rparr>)"

definition callback_cases :: "(string \<times> (userId \<Rightarrow> env \<Rightarrow> gateway \<Rightarrow> outcome)) list" where
  \<comment> \<open>the \<open>switch(action)\<close> of \<open>handleCallbackQuery\<close>: its case labels, which are
      distinct, each with its body\<close>
  "callback_cases =
     [(''country_92'', callback_prompt ''country_92''),
      (''country_1'', callback_prompt ''country_1''),
      (''country_971'', callback_prompt ''country_971''),
      (''country_966'', callback_prompt ''country_966''),
      (''country_all'', callback_prompt ''country_all''),
      (''send_immediate'', call_ctx ''sendSMS''),
      (''send_schedule'', call_ctx ''scheduleSMS''),
      (''edit_message'', callback_edit_message),
      (''change_number'', callback_change_number),
      (''show_templates'', call_ctx ''showQuickTemplates''),
      (''upload_bulk'', callback_prompt ''upload_bulk''),
      (''manual_bulk'', callback_manual_bulk),
      (''show_calendar'', call_ctx ''showCalendar''),
      (''schedule_5min'', call_ctx ''scheduleIn5Minutes''),
      (''cancel'', callback_cancel)]"

definition handleCallbackQuery :: "userId \<Rightarrow> string \<Rightarrow> env \<Rightarrow> gateway \<Rightarrow> outcome" where
  \<comment> \<open>\<open>ctx.answerCbQuery()\<close> comes first; an action with no case does nothing more\<close>
  "handleCallbackQuery userId action env g =
     (case map_of callback_cases action of
        None \<Rightarrow> finished [Reply_CallbackAnswered] g
      | Some body \<Rightarrow>
          (let out = body userId env g
           in out\<lparr>replies := Reply_CallbackAnswered # replies out\<rparr>))"

section \<open>Queue and maintenance\<close>

fun process_batch ::
  "(nat \<Rightarrow> env) \<Rightarrow> nat \<Rightarrow> queued_transmission list \<Rightarrow> gateway \<Rightarrow> gateway" where
  \<comment> \<open>\<open>for (const transmission of batch) { try { await processSMSTransmission(...) }
      catch (error) { logger.error(...) } }\<close>: the value of the call is dropped; the
      \<open>i\<close>-th call has the clock and random source \<open>envs i\<close>\<close>
  "process_batch envs i [] g = g"
| "process_batch envs i (transmission # batch) g =
     (case processSMSTransmission (envs i) (q_phoneNumber transmission)
             (q_message transmission) of
        Inl e \<Rightarrow> process_batch envs (Suc i) batch g
      | Inr result \<Rightarrow> process_batch envs (Suc i) batch g)"

definition processTransmissionQueue :: "(nat \<Rightarrow> env) \<Rightarrow> gateway \<Rightarrow> gateway" where
  \<comment> \<open>\<open>splice(0, 10)\<close> removes the batch from the queue before it is processed\<close>
  "processTransmissionQueue envs g =
     (if length (transmissionQueue g) = 0 then g
      else
        (let batch = take 10 (transmissionQueue g);
             g = g\<lparr>transmissionQueue := drop 10 (transmissionQueue g)\<rparr>
         in process_batch envs 0 batch g))"

definition cleanupOldSessions :: "nat \<Rightarrow> gateway \<Rightarrow> gateway" where
  "cleanupOldSessions now g =
     g\<lparr>userSessions :=
         filter (\<lambda>(userId, sess). \<not> (int now - int (timestamp sess) > 300000))
           (userSessions g)\<rparr>"

text \<open>
  The events of a running gateway: the three commands that open a flow, a text message,
  a callback query, a retry timer firing, a tick of the queue drain, and a tick of the
  monitor (\<open>cleanupOldSessions\<close>, then \<open>backupSystem\<close>, which only copies the data
  files into a directory the program never reads, then \<open>checkSystemHealth\<close>). The
  remaining commands (\<open>/start\<close>, \<open>/status\<close>, \<open>/help\<close>, \<open>/settings\<close>, \<open>/templates\<close>,
  \<open>/broadcast\<close>) write none of the state kept here.
\<close>

datatype event =
    Command_send userId nat
  | Command_bulk userId nat
  | Command_schedule userId nat
  | Text_message userId jsstring real
  | Callback_query userId string env
  | Retry_timer env
  | Queue_tick "nat \<Rightarrow> env"
  | Monitor_tick nat nat nat

fun handle_event :: "event \<Rightarrow> gateway \<Rightarrow> outcome" where
  "handle_event (Command_send userId now) g = initiateSingleSMS userId now g"
| "handle_event (Command_bulk userId now) g = initiateBulkSMS userId now g"
| "handle_event (Command_schedule userId now) g = initiateScheduleSMS userId now g"
| "handle_event (Text_message userId text random) g = handleTextMessage userId text random g"
| "handle_event (Callback_query userId action env) g = handleCallbackQuery userId action env g"
| "handle_event (Retry_timer env) g = retry_timer env g"
| "handle_event (Queue_tick envs) g = finished [] (processTransmissionQueue envs g)"
| "handle_event (Monitor_tick memory uptime now) g =
     finished [] (checkSystemHealth memory uptime now (cleanupOldSessions now g))"

fun run :: "event list \<Rightarrow> gateway \<Rightarrow> gateway" where
  \<comment> \<open>the state after a sequence of events; an exception of one handler is caught by
      the transport (\<open>bot.catch\<close>) and the gateway goes on\<close>
  "run [] g = g"
| "run (e # es) g = run es (after (handle_event e g))"

section \<open>Sample values\<close>

text \<open>Concrete inputs at which the properties below are evaluated.\<close>

definition example_env :: env where
  "example_env =
     \<lparr>env_now = 1700000000000, env_hour = 12, env_random_id = 1 / 4,
      env_random_score = (\<lambda>i. 1 / 2), env_random_route = 3 / 10,
      env_random_signal = 42 / 100, env_random_entanglement = 8 / 10\<rparr>"

definition example_failure :: sms_result where
  \<comment> \<open>the result of a transmission whose phone number is \<open>undefined\<close>\<close>
  "example_failure =
     \<lparr>res_success = False, res_transmissionId = (1700000000000, 1 / 4),
      res_phoneNumber = None, res_message = None, res_method = ''FAILED'',
      res_timeTaken = 0, res_parts = None, res_status = ''FAILED'', res_route = None,
      res_network = None, res_signalStrength = None, res_deliveryTime = None,
      res_transmissionMethod = None, res_quantumEntanglement = None,
      res_error = Some (ReadPropertyOfUndefined ''startsWith'')\<rparr>"

definition example_success :: sms_result where
  \<comment> \<open>the result of transmitting \<open>Hello\<close> to \<open>+923001234567\<close> under \<open>example_env\<close>\<close>
  "example_success =
     \<lparr>res_success = True, res_transmissionId = (1700000000000, 1 / 4),
      res_phoneNumber = Some (js ''+923001234567''), res_message = Some (js ''Hello''),
      res_method = ''QUANTUM_TUNNELING'', res_timeTaken = 800, res_parts = Some 1,
      res_status = ''DELIVERED'',
      res_route = Some ''VIRTUAL_GSM_NETWORK -> AI_ROUTER -> DESTINATION'',
      res_network = Some ''PAKISTAN_QUANTUM_NET'', res_signalStrength = Some 42,
      res_deliveryTime = Some 1700000001600,
      res_transmissionMethod = Some ''QUANTUM_TUNNELING'',
      res_quantumEntanglement = Some ''ESTABLISHED'', res_error = None\<rparr>"

definition same_counters_and_log :: "gateway \<Rightarrow> gateway \<Rightarrow> bool" where
  \<comment> \<open>the second state has the counters, the transmission log and the detail files of
      the first\<close>
  "same_counters_and_log g g' \<longleftrightarrow>
     systemStats g' = systemStats g \<and> sms_logs g' = sms_logs g
     \<and> transmission_logs g' = transmission_logs g"

definition second_steps_unreached :: "gateway \<Rightarrow> bool" where
  \<comment> \<open>no session is at the step that follows the first one of the BULK or of the
      SCHEDULED flow\<close>
  "second_steps_unreached g =
     list_all (\<lambda>(userId, sess). step sess \<noteq> awaiting_bulk_messages
                                 \<and> step sess \<noteq> awaiting_schedule_message)
       (userSessions g)"

definition text_turns :: "userId \<Rightarrow> (jsstring \<times> real) list \<Rightarrow> event list" where
  \<comment> \<open>a sequence of text messages of one user\<close>
  "text_turns userId turns = map (\<lambda>(t, random). Text_message userId t random) turns"

section \<open>Verified properties\<close>

subsection \<open>Message splitting\<close>

lemma substring_chunk: "i < length m \<Longrightarrow> substring m i (i + 160) = take 160 (drop i m)"
  by (simp add: substring_def Let_def min_def max_def)

lemma splitMessage_loop_step:
  "i < length m \<Longrightarrow>
   splitMessage_loop m i parts = splitMessage_loop m (i + 160) (parts @ [take 160 (drop i m)])"
  by (subst splitMessage_loop.simps) (simp add: substring_chunk)

lemma splitMessage_loop_stop: "\<not> i < length m \<Longrightarrow> splitMessage_loop m i parts = parts"
  by (subst splitMessage_loop.simps) simp

lemma splitMessage_loop_concat:
  "concat (splitMessage_loop m i parts) = concat parts @ drop i m"
proof (induction m i parts rule: splitMessage_loop.induct)
  case (1 m i parts)
  show ?case
  proof (cases "i < length m")
    case True
    have "take 160 (drop i m) @ drop (i + 160) m = drop i m"
      by (metis add.commute append_take_drop_id drop_drop)
    with True 1 show ?thesis
      by (simp add: splitMessage_loop_step substring_chunk)
  next
    case False
    then show ?thesis by (simp add: splitMessage_loop_stop)
  qed
qed

lemma splitMessage_loop_length:
  "length (splitMessage_loop m i parts) = length parts + (length m - i + 159) div 160"
proof (induction m i parts rule: splitMessage_loop.induct)
  case (1 m i parts)
  show ?case
  proof (cases "i < length m")
    case True
    have "(length m - i + 159) div 160 = Suc ((length m - (i + 160) + 159) div 160)"
      using True by (cases "i + 160 \<le> length m") auto
    with True 1 show ?thesis
      by (simp add: splitMessage_loop_step substring_chunk)
  next
    case False
    then show ?thesis by (simp add: splitMessage_loop_stop)
  qed
qed

lemma splitMessage_loop_pieces:
  "(\<forall>p \<in> set parts. length p \<le> 160) \<Longrightarrow>
   (\<forall>p \<in> set (splitMessage_loop m i parts). length p \<le> 160)"
proof (induction m i parts rule: splitMessage_loop.induct)
  case (1 m i parts)
  show ?case
  proof (cases "i < length m")
    case True
    with 1 show ?thesis
      by (simp add: splitMessage_loop_step substring_chunk)
  next
    case False
    with 1 show ?thesis by (simp add: splitMessage_loop_stop)
  qed
qed

text \<open>
  C6. For every message \<open>m\<close> (any list of code units), \<open>splitMessage m\<close> has exactly
  \<open>ceil(length m / 160)\<close> pieces, every piece has at most 160 code units, and the pieces
  concatenated in order give \<open>m\<close> back.
\<close>

theorem splitMessage_pieces:
  "int (length (splitMessage m)) = \<lceil>real (length m) / 160\<rceil>
   \<and> (\<forall>p \<in> set (splitMessage m). length p \<le> 160)
   \<and> concat (splitMessage m) = m"
proof -
  have "int ((length m + 159) div 160) = \<lceil>real (length m) / 160\<rceil>"
    by linarith
  then show ?thesis
    using splitMessage_loop_pieces [of "[]" m 0]
    by (simp add: splitMessage_def splitMessage_loop_length splitMessage_loop_concat)
qed

text \<open>The scenario of the specification: a message of 350 code units has 3 parts.\<close>

theorem splitMessage_pieces_witness:
  "length (splitMessage (replicate 350 (120::nat))) = 3
   \<and> list_all (\<lambda>p. length p \<le> 160) (splitMessage (replicate 350 (120::nat)))
   \<and> concat (splitMessage (replicate 350 (120::nat))) = replicate 350 120"
  using splitMessage_pieces [of "replicate 350 (120::nat)"]
  by (simp add: list_all_iff)

subsection \<open>Country detection\<close>

lemma startsWithE: "startsWith s p \<Longrightarrow> (\<And>r. s = p @ r \<Longrightarrow> P) \<Longrightarrow> P"
  unfolding startsWith_def by (metis append_take_drop_id)

lemma js_literals:
  "js ''+92'' = [43, 57, 50]" "js ''+1'' = [43, 49]" "js ''+44'' = [43, 52, 52]"
  "js ''+971'' = [43, 57, 55, 49]" "js ''+966'' = [43, 57, 54, 54]"
  "js ''+91'' = [43, 57, 49]" "js ''+86'' = [43, 56, 54]"
  by (simp_all add: js_def)

lemma detectCountry_PAKISTAN: "startsWith p (js ''+92'') \<Longrightarrow> detectCountry p = ''PAKISTAN''"
  by (erule startsWithE) (simp add: js_literals detectCountry_def countryCodes_def startsWith_def)

lemma detectCountry_USA: "startsWith p (js ''+1'') \<Longrightarrow> detectCountry p = ''USA''"
  by (erule startsWithE) (simp add: js_literals detectCountry_def countryCodes_def startsWith_def)

lemma detectCountry_UK: "startsWith p (js ''+44'') \<Longrightarrow> detectCountry p = ''UK''"
  by (erule startsWithE) (simp add: js_literals detectCountry_def countryCodes_def startsWith_def)

lemma detectCountry_UAE: "startsWith p (js ''+971'') \<Longrightarrow> detectCountry p = ''UAE''"
  by (erule startsWithE) (simp add: js_literals detectCountry_def countryCodes_def startsWith_def)

lemma detectCountry_SAUDI_ARABIA:
  "startsWith p (js ''+966'') \<Longrightarrow> detectCountry p = ''SAUDI_ARABIA''"
  by (erule startsWithE) (simp add: js_literals detectCountry_def countryCodes_def startsWith_def)

lemma detectCountry_INDIA: "startsWith p (js ''+91'') \<Longrightarrow> detectCountry p = ''INDIA''"
  by (erule startsWithE) (simp add: js_literals detectCountry_def countryCodes_def startsWith_def)

lemma detectCountry_CHINA: "startsWith p (js ''+86'') \<Longrightarrow> detectCountry p = ''CHINA''"
  by (erule startsWithE) (simp add: js_literals detectCountry_def countryCodes_def startsWith_def)


lemma detectCountry_any_match:
  "(code, country) \<in> set countryCodes \<Longrightarrow> startsWith p code \<Longrightarrow> detectCountry p = country"
  unfolding countryCodes_def
  by (auto intro: detectCountry_PAKISTAN detectCountry_USA detectCountry_UK detectCountry_UAE
        detectCountry_SAUDI_ARABIA detectCountry_INDIA detectCountry_CHINA)

lemma detectCountry_no_match:
  "(\<forall>(code, country) \<in> set countryCodes. \<not> startsWith p code) \<Longrightarrow>
   detectCountry p = ''INTERNATIONAL''"
  by (simp add: detectCountry_def countryCodes_def)

text \<open>
  C7. \<open>detectCountry\<close> is a function of the fixed prefix table alone: whenever a table
  prefix that the number starts with is a longest such prefix, the result is that entry's
  country, and when no table prefix matches the result is \<open>INTERNATIONAL\<close>. (No prefix
  of the table is a prefix of another, so the first match of the loop is the only one.)
\<close>

theorem detectCountry_longest_prefix:
  "(\<forall>(code, country) \<in> set countryCodes.
      startsWith p code
      \<and> (\<forall>(code', country') \<in> set countryCodes.
            startsWith p code' \<longrightarrow> length code' \<le> length code)
      \<longrightarrow> detectCountry p = country)
   \<and> ((\<forall>(code, country) \<in> set countryCodes. \<not> startsWith p code)
        \<longrightarrow> detectCountry p = ''INTERNATIONAL'')"
  using detectCountry_any_match [of _ _ p] detectCountry_no_match [of p]
  by blast



theorem detectCountry_longest_prefix_witness:
  "startsWith (js ''+923001234567'') (js ''+92'')
   \<and> detectCountry (js ''+923001234567'') = ''PAKISTAN''
   \<and> detectCountry (js ''+4915112345678'') = ''INTERNATIONAL''"
proof -
  have mem: "(js ''+92'', ''PAKISTAN'') \<in> set countryCodes"
    by (simp add: countryCodes_def)
  have m: "startsWith (js ''+923001234567'') (js ''+92'')"
    by (simp add: startsWith_def js_def)
  have longest: "\<forall>(code', country') \<in> set countryCodes.
      startsWith (js ''+923001234567'') code' \<longrightarrow> length code' \<le> length (js ''+92'')"
    by (simp add: countryCodes_def startsWith_def js_def)
  have none: "\<forall>(code, country) \<in> set countryCodes. \<not> startsWith (js ''+4915112345678'') code"
    by (simp add: countryCodes_def startsWith_def js_def)
  have "startsWith (js ''+923001234567'') (js ''+92'')
      \<and> (\<forall>(code', country') \<in> set countryCodes.
            startsWith (js ''+923001234567'') code' \<longrightarrow> length code' \<le> length (js ''+92''))
      \<longrightarrow> detectCountry (js ''+923001234567'') = ''PAKISTAN''"
    using bspec [OF conjunct1 [OF detectCountry_longest_prefix [of "js ''+923001234567''"]] mem]
    by (simp only: prod.case)
  with m longest have a: "detectCountry (js ''+923001234567'') = ''PAKISTAN''"
    by (rule_tac mp) (assumption, rule conjI)
  have b: "detectCountry (js ''+4915112345678'') = ''INTERNATIONAL''"
    using conjunct2 [OF detectCountry_longest_prefix [of "js ''+4915112345678''"]] none
    by (rule mp)
  from m a b show ?thesis by (intro conjI)
qed

subsection \<open>The scenario of a Pakistani number and a short message\<close>

lemma scenario_country: "detectCountry (js ''+923001234567'') = ''PAKISTAN''"
  by (rule detectCountry_PAKISTAN) (simp add: startsWith_def js_def)

lemma scenario_values:
  "phoneRegex_test (js ''+923001234567'')"
  "splitMessage (js ''Hello'') = [js ''Hello'']"
  "detectEncoding (js ''Hello'') = ''GSM_7BIT''"
  "calculatePriority (js ''+923001234567'') (js ''Hello'') = 1.2"
  "calculateBestRoute (js ''+923001234567'') = ''QUANTUM_PAKISTAN_HUB''"
  "calculateSuccessProbability (js ''+923001234567'') = 0.9075"
       apply (simp add: phoneRegex_test_def isDigit_def js_def)
      apply (simp add: splitMessage_def splitMessage_loop.simps substring_def js_def)
     apply (simp add: detectEncoding_def js_def)
    apply (simp add: calculatePriority_def detectCountry_def countryCodes_def lookup_or_def
      countryPriority_def urgentWords_def toLowerCase_def toLowerCase_unit_def js_def
      startsWith_def)
   apply (simp add: calculateBestRoute_def scenario_country lookup_label_def routes_def)
  apply (simp add: calculateSuccessProbability_def scenario_country lookup_or_def countryProbabilities_def)
  done

text \<open>
  C1 (as amended). For the address \<open>+923001234567\<close> and the message \<open>Hello\<close>:
  validation passes with country \<open>PAKISTAN\<close>, \<open>detectCountry\<close> returns \<open>PAKISTAN\<close>, and
  the optimization profile has 1 part, encoding \<open>GSM_7BIT\<close>, priority 1.2, route
  \<open>QUANTUM_PAKISTAN_HUB\<close> and success probability
  \<open>min(0.99, 0.85 * 0.95 + 0.10) = 0.9075\<close>, 0.95 being the weight of \<open>PAKISTAN\<close> in
  the table of \<open>calculateSuccessProbability\<close>.
\<close>

theorem scenario_pakistan_hello:
  "validatePhoneNumber (js ''+923001234567'')
     = \<lparr>pv_valid = True, pv_message = PhoneAccepted, pv_country = ''PAKISTAN''\<rparr>
   \<and> detectCountry (js ''+923001234567'') = ''PAKISTAN''
   \<and> optimizeTransmission hour (Some (js ''+923001234567'')) (Some (js ''Hello''))
     = Inr \<lparr>opt_phoneNumber = js ''+923001234567'',
            opt_country = ''PAKISTAN'',
            opt_messageLength = 5,
            opt_parts = 1,
            opt_encoding = ''GSM_7BIT'',
            opt_priority = 1.2,
            opt_bestRoute = ''QUANTUM_PAKISTAN_HUB'',
            opt_transmissionWindow = calculateTransmissionWindow hour,
            opt_successProbability = 0.9075\<rparr>
   \<and> calculatePriority (js ''+923001234567'') (js ''Hello'') = 1.2
   \<and> calculateBestRoute (js ''+923001234567'') = ''QUANTUM_PAKISTAN_HUB''
   \<and> calculateSuccessProbability (js ''+923001234567'') = min 0.99 (0.85 * 0.95 + 0.10)
   \<and> calculateSuccessProbability (js ''+923001234567'') = 0.9075"
proof -
  have len: "length (js ''Hello'') = 5" by (simp add: js_def)
  show ?thesis
    by (simp add: validatePhoneNumber_def optimizeTransmission_def scenario_country
        scenario_values len)
qed

text \<open>
  C1 as stated gives the success probability as about 0.9575; the formula it quotes
  yields 0.9075 for \<open>PAKISTAN\<close>, 0.05 away.
\<close>

theorem scenario_successProbability_not_09575:
  "calculateSuccessProbability (js ''+923001234567'') = 0.9075
   \<and> \<bar>calculateSuccessProbability (js ''+923001234567'') - 0.9575\<bar> = 0.05"
  by (simp add: scenario_values)

subsection \<open>Method scoring and selection\<close>



lemma length_map_scores [simp]: "length (map_scores rnd i methods opt) = length methods"
  by (induction methods arbitrary: i) simp_all

lemma nth_map_scores:
  "j < length methods \<Longrightarrow>
   map_scores rnd i methods opt ! j
     = (methods ! j, scoreTransmissionMethod (rnd (i + j)) (methods ! j) opt)"
proof (induction methods arbitrary: i j)
  case Nil
  then show ?case by simp
next
  case (Cons m ms)
  then show ?case by (cases j) simp_all
qed


lemma fold_best_first_maximum:
  fixes first :: "'a \<times> real"
  defines "f \<equiv> (\<lambda>current best. if snd current > snd best then current else best)"
  shows "\<exists>k \<le> length rest.
           fold f rest first = (first # rest) ! k
           \<and> (\<forall>j \<le> length rest. snd ((first # rest) ! j) \<le> snd ((first # rest) ! k))
           \<and> (\<forall>j < k. snd ((first # rest) ! j) < snd ((first # rest) ! k))"
proof (induction rest rule: rev_induct)
  case Nil
  show ?case by simp
next
  case (snoc y ys)
  then obtain k where k: "k \<le> length ys" "fold f ys first = (first # ys) ! k"
    and mx: "\<And>j. j \<le> length ys \<Longrightarrow> snd ((first # ys) ! j) \<le> snd ((first # ys) ! k)"
    and fst: "\<And>j. j < k \<Longrightarrow> snd ((first # ys) ! j) < snd ((first # ys) ! k)"
    by blast
  have old: "(first # ys @ [y]) ! j = (first # ys) ! j" if "j \<le> length ys" for j
    using that by (metis append_Cons le_imp_less_Suc length_Cons nth_append)
  have new: "(first # ys @ [y]) ! Suc (length ys) = y"
    by (metis append_Cons length_Cons nth_append_length)
  show ?case
  proof (cases "snd y > snd ((first # ys) ! k)")
    case True
    have a: "fold f (ys @ [y]) first = (first # ys @ [y]) ! Suc (length ys)"
      using True k new by (simp add: f_def)
    have b: "snd ((first # ys @ [y]) ! j) \<le> snd ((first # ys @ [y]) ! Suc (length ys))"
      if "j \<le> length (ys @ [y])" for j
    proof (cases "j \<le> length ys")
      case True
      with mx [of j] old [of j] new \<open>snd y > snd ((first # ys) ! k)\<close> show ?thesis by simp
    next
      case False
      with that have "j = Suc (length ys)" by simp
      then show ?thesis by simp
    qed
    have c: "snd ((first # ys @ [y]) ! j) < snd ((first # ys @ [y]) ! Suc (length ys))"
      if "j < Suc (length ys)" for j
    proof -
      from that have "j \<le> length ys" by simp
      with mx [of j] old [of j] new True show ?thesis by simp
    qed
    show ?thesis
      apply (rule exI [of _ "Suc (length ys)"])
      using a b c by simp
  next
    case False
    have a: "fold f (ys @ [y]) first = (first # ys @ [y]) ! k"
      using False k old [of k] by (simp add: f_def)
    have b: "snd ((first # ys @ [y]) ! j) \<le> snd ((first # ys @ [y]) ! k)"
      if "j \<le> length (ys @ [y])" for j
    proof (cases "j \<le> length ys")
      case True
      with mx [of j] old [of j] old [of k] k show ?thesis by simp
    next
      case F: False
      with that have "j = Suc (length ys)" by simp
      with new False old [of k] k show ?thesis by simp
    qed
    have c: "snd ((first # ys @ [y]) ! j) < snd ((first # ys @ [y]) ! k)" if "j < k" for j
    proof -
      from that k have "j \<le> length ys" by simp
      with fst [of j] old [of j] old [of k] k that show ?thesis by simp
    qed
    show ?thesis
      apply (rule exI [of _ k])
      using a b c k by simp
  qed
qed

lemma reduce_best_first_maximum:
  assumes "scores \<noteq> []"
  shows "\<exists>k < length scores.
           reduce_best scores = Inr (scores ! k)
           \<and> (\<forall>j < length scores. snd (scores ! j) \<le> snd (scores ! k))
           \<and> (\<forall>j < k. snd (scores ! j) < snd (scores ! k))"
proof -
  from assms obtain first rest where s: "scores = first # rest" by (cases scores) auto
  from fold_best_first_maximum [of rest first] show ?thesis
    unfolding s reduce_best_def by (auto simp: less_Suc_eq_le)
qed


lemma TRANSMISSION_METHODS_length: "length TRANSMISSION_METHODS = 5"
  by (simp add: TRANSMISSION_METHODS_def)



lemma select_first_maximum:
  "\<exists>k < length TRANSMISSION_METHODS.
     selectBestTransmissionMethod rnd optimization = Inr (TRANSMISSION_METHODS ! k)
     \<and> (\<forall>j < length TRANSMISSION_METHODS.
           scoreTransmissionMethod (rnd j) (TRANSMISSION_METHODS ! j) optimization
           \<le> scoreTransmissionMethod (rnd k) (TRANSMISSION_METHODS ! k) optimization)
     \<and> (\<forall>j < k.
           scoreTransmissionMethod (rnd j) (TRANSMISSION_METHODS ! j) optimization
           < scoreTransmissionMethod (rnd k) (TRANSMISSION_METHODS ! k) optimization)"
proof -
  let ?scores = "map_scores rnd 0 TRANSMISSION_METHODS optimization"
  have "length ?scores = 5"
    by (simp only: length_map_scores TRANSMISSION_METHODS_length)
  then have "?scores \<noteq> []" by (cases ?scores) simp_all
  from reduce_best_first_maximum [OF this]
  obtain k where k: "k < length TRANSMISSION_METHODS"
    and best: "reduce_best ?scores = Inr (?scores ! k)"
    and mx: "\<And>j. j < length TRANSMISSION_METHODS \<Longrightarrow> snd (?scores ! j) \<le> snd (?scores ! k)"
    and fst: "\<And>j. j < k \<Longrightarrow> snd (?scores ! j) < snd (?scores ! k)"
    by auto
  have nth: "?scores ! j
      = (TRANSMISSION_METHODS ! j,
         scoreTransmissionMethod (rnd j) (TRANSMISSION_METHODS ! j) optimization)"
    if "j < length TRANSMISSION_METHODS" for j
    using nth_map_scores [OF that, of rnd 0 optimization] by simp
  have a: "selectBestTransmissionMethod rnd optimization = Inr (TRANSMISSION_METHODS ! k)"
    using best nth [OF k] by (simp add: selectBestTransmissionMethod_def)
  have b: "scoreTransmissionMethod (rnd j) (TRANSMISSION_METHODS ! j) optimization
           \<le> scoreTransmissionMethod (rnd k) (TRANSMISSION_METHODS ! k) optimization"
    if "j < length TRANSMISSION_METHODS" for j
    using mx [OF that] nth [OF that] nth [OF k] by simp
  have c: "scoreTransmissionMethod (rnd j) (TRANSMISSION_METHODS ! j) optimization
           < scoreTransmissionMethod (rnd k) (TRANSMISSION_METHODS ! k) optimization"
    if "j < k" for j
  proof -
    from that k have "j < length TRANSMISSION_METHODS" by simp
    from fst [OF that] nth [OF this] nth [OF k] show ?thesis by simp
  qed
  from k a b c show ?thesis by blast
qed




subsection \<open>The sample values\<close>

lemma hello_length: "length (js ''Hello'') = 5"
  by (simp add: js_def)

lemma example_success_run:
  "processSMSTransmission example_env (Some (js ''+923001234567'')) (Some (js ''Hello''))
   = Inr example_success"
proof -
  have opt: "optimizeTransmission 12 (Some (js ''+923001234567'')) (Some (js ''Hello''))
     = Inr \<lparr>opt_phoneNumber = js ''+923001234567'',
            opt_country = ''PAKISTAN'',
            opt_messageLength = 5,
            opt_parts = 1,
            opt_encoding = ''GSM_7BIT'',
            opt_priority = 1.2,
            opt_bestRoute = ''QUANTUM_PAKISTAN_HUB'',
            opt_transmissionWindow = ''STANDARD_WINDOW'',
            opt_successProbability = 0.9075\<rparr>"
    by (simp add: optimizeTransmission_def scenario_country scenario_values
        calculateTransmissionWindow_def hello_length)
  have sel: "selectBestTransmissionMethod (\<lambda>i. 1 / 2)
      \<lparr>opt_phoneNumber = js ''+923001234567'',
            opt_country = ''PAKISTAN'',
            opt_messageLength = 5,
            opt_parts = Suc 0,
            opt_encoding = ''GSM_7BIT'',
            opt_priority = 6 / 5,
            opt_bestRoute = ''QUANTUM_PAKISTAN_HUB'',
            opt_transmissionWindow = ''STANDARD_WINDOW'',
            opt_successProbability = 363 / 400\<rparr> = Inr ''QUANTUM_TUNNELING''"
    by (simp add: selectBestTransmissionMethod_def reduce_best_def TRANSMISSION_METHODS_def
        scoreTransmissionMethod_def)
  have net: "simulateNetwork (Some (js ''+923001234567'')) = Inr ''PAKISTAN_QUANTUM_NET''"
    by (simp add: simulateNetwork_def networks_def startsWith_def js_def)
  have route: "generateRoute (3 / 10) = Some ''VIRTUAL_GSM_NETWORK -> AI_ROUTER -> DESTINATION''"
    by (simp add: generateRoute_def route_corpus_def)
  have time: "getTransmissionTime ''QUANTUM_TUNNELING'' = 800"
    by (simp add: getTransmissionTime_def times_def)
  have sub: "substring (js ''Hello'') 0 50 = js ''Hello''"
    by (simp add: substring_def hello_length)
  show ?thesis
    by (simp add: processSMSTransmission_def processSMSTransmission_try_def example_env_def
        opt sel applyQuantumEncryption_def calculateHash_def transmitSMS_def net route time
        sub hello_length example_success_def)
qed

lemma example_failure_run:
  "processSMSTransmission example_env None None = Inr example_failure"
  by (simp add: processSMSTransmission_def processSMSTransmission_try_def example_env_def
      optimizeTransmission_def example_failure_def)

subsection \<open>The executor boundary\<close>

lemma transmitSMS_success:
  "transmitSMS env phoneNumber encryptedData m optimization = Inr t \<Longrightarrow> tr_success t"
  by (auto simp: transmitSMS_def Let_def split: sum.splits)

lemma try_success:
  assumes "processSMSTransmission_try env phoneNumber message = Inr r"
  shows "res_success r \<and> res_status r = ''DELIVERED''"
proof -
  from assms obtain t optimization m encryptedData where
    t: "transmitSMS env phoneNumber encryptedData m optimization = Inr t"
    and r: "res_success r = tr_success t" "res_status r = ''DELIVERED''"
    unfolding processSMSTransmission_try_def
    by (fastforce split: sum.splits option.splits)
  from transmitSMS_success [OF t] r show ?thesis by simp
qed

text \<open>
  C5. For every clock and random source, phone number and message (each a string or
  \<open>undefined\<close>), \<open>processSMSTransmission\<close> returns a result and lets no exception out:
  when a step of its \<open>try\<close> block (optimization, method selection, encryption,
  transmission) raises \<open>e\<close>, the result has \<open>success = false\<close>, \<open>status = FAILED\<close> and
  carries \<open>e\<close>; when the block completes, its result is returned and has
  \<open>success = true\<close>.
\<close>

theorem processSMSTransmission_never_throws:
  "(\<exists>result. processSMSTransmission env phoneNumber message = Inr result)
   \<and> (\<forall>e. processSMSTransmission_try env phoneNumber message = Inl e \<longrightarrow>
          (\<exists>result. processSMSTransmission env phoneNumber message = Inr result
             \<and> res_success result = False \<and> res_status result = ''FAILED''
             \<and> res_error result = Some e))
   \<and> (\<forall>r. processSMSTransmission_try env phoneNumber message = Inr r \<longrightarrow>
          processSMSTransmission env phoneNumber message = Inr r \<and> res_success r = True)"
proof (cases "processSMSTransmission_try env phoneNumber message")
  case (Inl e)
  then show ?thesis by (simp add: processSMSTransmission_def)
next
  case (Inr r)
  with try_success [OF Inr] show ?thesis by (simp add: processSMSTransmission_def)
qed

lemma try_undefined_number:
  "processSMSTransmission_try env None message = Inl (ReadPropertyOfUndefined ''startsWith'')"
  by (simp add: processSMSTransmission_try_def optimizeTransmission_def)

lemma try_undefined_message:
  "processSMSTransmission_try env (Some p) None = Inl (ReadPropertyOfUndefined ''length'')"
  by (simp add: processSMSTransmission_try_def optimizeTransmission_def)

lemma try_strings:
  "\<exists>r. processSMSTransmission_try env (Some p) (Some m) = Inr r"
proof -
  obtain optimization where o: "optimizeTransmission (env_hour env) (Some p) (Some m) = Inr optimization"
    by (simp add: optimizeTransmission_def)
  from select_first_maximum [of "env_random_score env" optimization]
  obtain sel where s: "selectBestTransmissionMethod (env_random_score env) optimization = Inr sel"
    by blast
  show ?thesis
    by (simp add: processSMSTransmission_try_def o s applyQuantumEncryption_def
        calculateHash_def transmitSMS_def simulateNetwork_def Let_def)
qed

lemma success_iff_defined:
  assumes h: "processSMSTransmission env phoneNumber message = Inr result"
  shows "res_success result \<longleftrightarrow> phoneNumber \<noteq> None \<and> message \<noteq> None"
proof (cases phoneNumber)
  case None
  with h show ?thesis
    by (auto simp: processSMSTransmission_def try_undefined_number)
next
  case (Some p)
  show ?thesis
  proof (cases message)
    case None
    with h Some show ?thesis
      by (auto simp: processSMSTransmission_def try_undefined_message)
  next
    case (Some m)
    from try_strings [of env p m] obtain r where
      r: "processSMSTransmission_try env (Some p) (Some m) = Inr r" by blast
    with h try_success [OF r] \<open>phoneNumber = Some p\<close> Some show ?thesis
      by (auto simp: processSMSTransmission_def)
  qed
qed

theorem processSMSTransmission_never_throws_witness:
  "processSMSTransmission example_env None None = Inr example_failure
   \<and> res_success example_failure = False \<and> res_status example_failure = ''FAILED''
   \<and> res_error example_failure = Some (ReadPropertyOfUndefined ''startsWith'')
   \<and> processSMSTransmission example_env (Some (js ''+923001234567'')) (Some (js ''Hello''))
       = Inr example_success
   \<and> res_success example_success = True"
proof -
  have f: "processSMSTransmission_try example_env None None
           = Inl (ReadPropertyOfUndefined ''startsWith'')"
    by (rule try_undefined_number)
  have "\<exists>result. processSMSTransmission example_env None None = Inr result
             \<and> res_success result = False \<and> res_status result = ''FAILED''
             \<and> res_error result = Some (ReadPropertyOfUndefined ''startsWith'')"
    using spec [OF conjunct1 [OF conjunct2
      [OF processSMSTransmission_never_throws [of example_env None None]]]] f
    by (rule mp)
  then have a: "res_success example_failure = False \<and> res_status example_failure = ''FAILED''
      \<and> res_error example_failure = Some (ReadPropertyOfUndefined ''startsWith'')"
    by (simp add: example_failure_run)
  have "res_success example_success = True" by (simp add: example_success_def)
  with a show ?thesis by (simp add: example_failure_run example_success_run)
qed

subsection \<open>Counters on a failed attempt and its retry\<close>

lemma systemStats_logTransmission [simp]:
  "systemStats (logTransmission result now g) = systemStats g"
  by (simp add: logTransmission_def Let_def)

lemma retry_timers_logTransmission [simp]:
  "retry_timers (logTransmission result now g) = retry_timers g"
  by (simp add: logTransmission_def Let_def)

lemma userSessions_logTransmission [simp]:
  "userSessions (logTransmission result now g) = userSessions g"
  by (simp add: logTransmission_def Let_def)

lemma transmissionQueue_logTransmission [simp]:
  "transmissionQueue (logTransmission result now g) = transmissionQueue g"
  by (simp add: logTransmission_def Let_def)




text \<open>
  With the executor of this repository the two results above cannot come from the same
  session data: a transmission fails exactly when the number or the message is
  \<open>undefined\<close>, and the retry reads the same data.
\<close>

lemma retry_repeats_the_outcome:
  assumes "processSMSTransmission env1 phoneNumber message = Inr first"
    and "processSMSTransmission env2 phoneNumber message = Inr second"
  shows "res_success second = res_success first"
  using success_iff_defined [OF assms(1)] success_iff_defined [OF assms(2)] by simp

subsection \<open>Bounded logs\<close>

lemma length_slice_last: "length (slice_last n xs) \<le> n"
  by (simp add: slice_last_def)

lemma slice_last_short: "length xs \<le> n \<Longrightarrow> slice_last n xs = xs"
  by (simp add: slice_last_def)

lemma slice_last_append: "slice_last n (slice_last n xs @ ys) = slice_last n (xs @ ys)"
proof (cases "length xs \<le> n")
  case True
  then show ?thesis by (simp add: slice_last_short)
next
  case False
  then have n: "n < length xs" by simp
  show ?thesis
    using n by (simp add: slice_last_def add.commute)
qed

lemma stored_logs_logTransmission:
  "stored_logs (logTransmission result now g)
   = slice_last 10000 (stored_logs g @ [log_entry_of (result, now)])"
  by (simp add: logTransmission_def stored_logs_def log_entry_of_def Let_def slice_last_short
      split: option.splits)

lemma stored_logs_logTransmission_all:
  "appends \<noteq> [] \<or> length (stored_logs g) \<le> 10000 \<Longrightarrow>
   stored_logs (logTransmission_all appends g)
   = slice_last 10000 (stored_logs g @ map log_entry_of appends)"
proof (induction appends arbitrary: g)
  case Nil
  then show ?case by (simp add: slice_last_short)
next
  case (Cons a rest)
  obtain result now where a: "a = (result, now)" by (cases a)
  have "length (stored_logs (logTransmission result now g)) \<le> 10000"
    by (simp add: stored_logs_logTransmission length_slice_last)
  then have "stored_logs (logTransmission_all rest (logTransmission result now g))
      = slice_last 10000 (stored_logs (logTransmission result now g) @ map log_entry_of rest)"
    using Cons.IH by blast
  then show ?case
    by (simp add: a stored_logs_logTransmission slice_last_append)
qed

lemma stored_health_checkSystemHealth:
  "stored_health (checkSystemHealth memory uptime now g)
   = slice_last 1000 (stored_health g @ [health_sample_of g (memory, uptime, now)])"
  by (simp add: checkSystemHealth_def stored_health_def health_sample_of_def Let_def
      slice_last_short split: option.splits)

lemma health_sample_of_checkSystemHealth:
  "health_sample_of (checkSystemHealth memory uptime now g) = health_sample_of g"
  by (rule ext) (simp add: checkSystemHealth_def health_sample_of_def Let_def)

lemma stored_health_checkSystemHealth_all:
  "samples \<noteq> [] \<or> length (stored_health g) \<le> 1000 \<Longrightarrow>
   stored_health (checkSystemHealth_all samples g)
   = slice_last 1000 (stored_health g @ map (health_sample_of g) samples)"
proof (induction samples arbitrary: g)
  case Nil
  then show ?case by (simp add: slice_last_short)
next
  case (Cons a rest)
  obtain memory uptime now where a: "a = (memory, uptime, now)" by (cases a)
  have "length (stored_health (checkSystemHealth memory uptime now g)) \<le> 1000"
    by (simp add: stored_health_checkSystemHealth length_slice_last)
  then have "stored_health (checkSystemHealth_all rest (checkSystemHealth memory uptime now g))
      = slice_last 1000 (stored_health (checkSystemHealth memory uptime now g)
          @ map (health_sample_of (checkSystemHealth memory uptime now g)) rest)"
    using Cons.IH by blast
  then show ?case
    by (simp add: a stored_health_checkSystemHealth slice_last_append
        health_sample_of_checkSystemHealth)
qed

text \<open>
  C9. After any sequence of appends by \<open>logTransmission\<close>, \<open>sms_logs.json\<close> holds at most
  10,000 entries, and after any sequence of appends by \<open>checkSystemHealth\<close>,
  \<open>health.json\<close> holds at most 1,000 samples: it holds exactly the most recent 10,000
  (1,000) of what was stored followed by what was appended, the oldest being the ones
  dropped. This is so from any stored file once one append has been made, and from the
  start when the stored file is within the cap.
\<close>

theorem bounded_logs:
  "(appends \<noteq> [] \<or> length (stored_logs g) \<le> 10000 \<longrightarrow>
      length (stored_logs (logTransmission_all appends g)) \<le> 10000
      \<and> stored_logs (logTransmission_all appends g)
        = drop (length (stored_logs g @ map log_entry_of appends) - 10000)
            (stored_logs g @ map log_entry_of appends))
   \<and> (samples \<noteq> [] \<or> length (stored_health g) \<le> 1000 \<longrightarrow>
      length (stored_health (checkSystemHealth_all samples g)) \<le> 1000
      \<and> stored_health (checkSystemHealth_all samples g)
        = drop (length (stored_health g @ map (health_sample_of g) samples) - 1000)
            (stored_health g @ map (health_sample_of g) samples))"
proof (intro conjI impI)
  assume h: "appends \<noteq> [] \<or> length (stored_logs g) \<le> 10000"
  from stored_logs_logTransmission_all [OF h]
  show "stored_logs (logTransmission_all appends g)
        = drop (length (stored_logs g @ map log_entry_of appends) - 10000)
            (stored_logs g @ map log_entry_of appends)"
    by (simp only: slice_last_def)
  from stored_logs_logTransmission_all [OF h] length_slice_last
  show "length (stored_logs (logTransmission_all appends g)) \<le> 10000"
    by (simp only:)
next
  assume h: "samples \<noteq> [] \<or> length (stored_health g) \<le> 1000"
  from stored_health_checkSystemHealth_all [OF h]
  show "stored_health (checkSystemHealth_all samples g)
        = drop (length (stored_health g @ map (health_sample_of g) samples) - 1000)
            (stored_health g @ map (health_sample_of g) samples)"
    by (simp only: slice_last_def)
  from stored_health_checkSystemHealth_all [OF h] length_slice_last
  show "length (stored_health (checkSystemHealth_all samples g)) \<le> 1000"
    by (simp only:)
qed


text \<open>Appending to a full log evicts exactly its oldest entry.\<close>

theorem bounded_logs_witness:
  "stored_logs (logTransmission_all [(example_failure, 5)]
      ((new_gateway 0)\<lparr>sms_logs := Some (replicate 10000 (log_entry_of (example_success, 4)))\<rparr>))
     = replicate 9999 (log_entry_of (example_success, 4)) @ [log_entry_of (example_failure, 5)]
   \<and> length (stored_logs (logTransmission_all [(example_failure, 5)]
      ((new_gateway 0)\<lparr>sms_logs := Some (replicate 10000 (log_entry_of (example_success, 4)))\<rparr>)))
     = 10000
   \<and> stored_health (checkSystemHealth_all [(6, 7, 8)]
      ((new_gateway 0)\<lparr>health_log := Some (replicate 1000 (health_sample_of (new_gateway 0) (0, 0, 0)))\<rparr>))
     = replicate 999 (health_sample_of (new_gateway 0) (0, 0, 0))
         @ [health_sample_of (new_gateway 0) (6, 7, 8)]"
proof -
  let ?g = "(new_gateway 0)\<lparr>sms_logs := Some (replicate 10000 (log_entry_of (example_success, 4)))\<rparr>"
  let ?h = "(new_gateway 0)\<lparr>health_log := Some (replicate 1000 (health_sample_of (new_gateway 0) (0, 0, 0)))\<rparr>"
  have sg: "stored_logs ?g = replicate 10000 (log_entry_of (example_success, 4))"
    by (simp add: stored_logs_def)
  have sh: "stored_health ?h = replicate 1000 (health_sample_of (new_gateway 0) (0, 0, 0))"
    by (simp add: stored_health_def)
  have hs: "health_sample_of ?h = health_sample_of (new_gateway 0)"
    by (rule ext) (simp add: health_sample_of_def)
  have a: "[(example_failure, 5::nat)] \<noteq> [] \<or> length (stored_logs ?g) \<le> 10000" by simp
  have b: "[(6::nat, 7::nat, 8::nat)] \<noteq> [] \<or> length (stored_health ?h) \<le> 1000" by simp
  note t = bounded_logs [of "[(example_failure, 5)]" ?g "[(6, 7, 8)]"]
  from mp [OF conjunct1 [OF t] a]
  have l: "stored_logs (logTransmission_all [(example_failure, 5)] ?g)
      = replicate 9999 (log_entry_of (example_success, 4)) @ [log_entry_of (example_failure, 5)]"
    by (simp add: sg)
  note t' = bounded_logs [of "[(example_failure, 5)]" ?h "[(6, 7, 8)]"]
  from mp [OF conjunct2 [OF t'] b]
  have h: "stored_health (checkSystemHealth_all [(6, 7, 8)] ?h)
      = replicate 999 (health_sample_of (new_gateway 0) (0, 0, 0))
         @ [health_sample_of (new_gateway 0) (6, 7, 8)]"
    by (simp add: sh hs)
  from l h show ?thesis by simp
qed

subsection \<open>The queue drain and what writes the counters\<close>

lemma process_batch_unchanged: "process_batch envs i batch g = g"
  by (induction batch arbitrary: i) (simp_all split: sum.splits)

lemma processTransmissionQueue_drop:
  "processTransmissionQueue envs g = g\<lparr>transmissionQueue := drop 10 (transmissionQueue g)\<rparr>"
  by (simp add: processTransmissionQueue_def process_batch_unchanged Let_def)

lemma text_frame:
  "same_counters_and_log g (after (handleTextMessage userId text random g))"
  by (simp add: same_counters_and_log_def handleTextMessage_def call_text_step_def
      text_step_methods_def processPhoneNumber_def processMessage_def finished_def throws_def
      Let_def split: option.splits session_step.splits)

lemma set_step_frame:
  "set_step userId st g = Inr g' \<Longrightarrow> same_counters_and_log g g'"
  by (auto simp: set_step_def same_counters_and_log_def split: option.splits)

lemma callback_case_frame:
  assumes "(a, body) \<in> set callback_cases" and "a \<noteq> ''send_immediate''"
  shows "same_counters_and_log g (after (body userId env g))"
proof -
  have undefined_methods:
    "map_of ctx_methods ''scheduleSMS'' = None"
    "map_of ctx_methods ''showCalendar'' = None"
    "map_of ctx_methods ''scheduleIn5Minutes'' = None"
    "map_of ctx_methods ''showQuickTemplates'' = Some showQuickTemplates"
    by (simp_all add: ctx_methods_def)
  have prompt: "same_counters_and_log g (after (callback_prompt l userId env g))" for l
    by (simp add: callback_prompt_def finished_def same_counters_and_log_def)
  have undef: "same_counters_and_log g (after (call_ctx n userId env g))"
    if "map_of ctx_methods n = None" for n
    using that by (simp add: call_ctx_def throws_def same_counters_and_log_def)
  have templates: "same_counters_and_log g (after (call_ctx ''showQuickTemplates'' userId env g))"
    by (simp add: call_ctx_def undefined_methods showQuickTemplates_def finished_def
        same_counters_and_log_def)
  have edit: "same_counters_and_log g (after (callback_edit_message userId env g))"
    using set_step_frame [of userId awaiting_message g]
    by (simp add: callback_edit_message_def finished_def throws_def same_counters_and_log_def
        split: sum.splits)
  have change: "same_counters_and_log g (after (callback_change_number userId env g))"
    using set_step_frame [of userId awaiting_number g]
    by (simp add: callback_change_number_def finished_def throws_def same_counters_and_log_def
        split: sum.splits)
  have manual: "same_counters_and_log g (after (callback_manual_bulk userId env g))"
    using set_step_frame [of userId awaiting_bulk_numbers g]
    by (simp add: callback_manual_bulk_def finished_def throws_def same_counters_and_log_def
        split: sum.splits)
  have cancel: "same_counters_and_log g (after (callback_cancel userId env g))"
    by (simp add: callback_cancel_def finished_def same_counters_and_log_def)
  from assms(1) have
    "body = callback_prompt ''country_92'' \<or> body = callback_prompt ''country_1''
     \<or> body = callback_prompt ''country_971'' \<or> body = callback_prompt ''country_966''
     \<or> body = callback_prompt ''country_all'' \<or> a = ''send_immediate''
     \<or> body = call_ctx ''scheduleSMS'' \<or> body = callback_edit_message
     \<or> body = callback_change_number \<or> body = call_ctx ''showQuickTemplates''
     \<or> body = callback_prompt ''upload_bulk'' \<or> body = callback_manual_bulk
     \<or> body = call_ctx ''showCalendar'' \<or> body = call_ctx ''scheduleIn5Minutes''
     \<or> body = callback_cancel"
    unfolding callback_cases_def by (simp only: set_simps insert_iff empty_iff prod.inject) fast
  with assms(2) show ?thesis
    using prompt undef [OF undefined_methods(1)] undef [OF undefined_methods(2)]
      undef [OF undefined_methods(3)] templates edit change manual cancel
    by (elim disjE) simp_all
qed

lemma callback_frame:
  assumes "action \<noteq> ''send_immediate''"
  shows "same_counters_and_log g (after (handleCallbackQuery userId action env g))"
proof (cases "map_of callback_cases action")
  case None
  then show ?thesis
    by (simp add: handleCallbackQuery_def finished_def same_counters_and_log_def)
next
  case (Some body)
  from callback_case_frame [OF map_of_SomeD [OF Some] assms, of g userId env] Some
  show ?thesis
    by (simp add: handleCallbackQuery_def Let_def same_counters_and_log_def)
qed


lemma retry_timer_log_frame:
  "sms_logs (after (retry_timer env g)) = sms_logs g
   \<and> transmission_logs (after (retry_timer env g)) = transmission_logs g"
  by (simp add: retry_timer_def retry_callback_def retryTransmission_def
      retryTransmission_settled_def
      finished_def throws_def split: list.splits sum.splits)

lemma event_frame:
  "(\<exists>userId env. e = Callback_query userId ''send_immediate'' env)
   \<or> (\<exists>env. e = Retry_timer env)
   \<or> same_counters_and_log g (after (handle_event e g))"
proof (cases e)
  case (Callback_query userId action env)
  then show ?thesis using callback_frame [of action g userId env] by auto
next
  case (Text_message userId t random)
  then show ?thesis using text_frame [of g userId t random] by simp
qed (simp_all add: same_counters_and_log_def initiateSingleSMS_def initiateBulkSMS_def
      initiateScheduleSMS_def finished_def processTransmissionQueue_drop
      checkSystemHealth_def cleanupOldSessions_def Let_def)

text \<open>
  C10. A tick of the queue drain removes the first 10 requests of the queue (fewer when
  there are fewer) and leaves the counters of \<open>systemStats\<close>, the transmission log and
  the detail files as they were: the results of the queued transmissions are dropped.
  Among all events only the \<open>send_immediate\<close> callback, that is \<open>sendSMS\<close>, writes the
  log, and only it and the retry timer that \<open>sendSMS\<close> sets write the counters.
\<close>

theorem queue_tick_frame:
  "transmissionQueue (processTransmissionQueue envs g) = drop 10 (transmissionQueue g)
   \<and> length (transmissionQueue g)
       - length (transmissionQueue (processTransmissionQueue envs g)) \<le> 10
   \<and> systemStats (processTransmissionQueue envs g) = systemStats g
   \<and> sms_logs (processTransmissionQueue envs g) = sms_logs g
   \<and> transmission_logs (processTransmissionQueue envs g) = transmission_logs g
   \<and> (\<forall>e. systemStats (after (handle_event e g)) \<noteq> systemStats g \<longrightarrow>
          (\<exists>userId env. e = Callback_query userId ''send_immediate'' env)
          \<or> (\<exists>env. e = Retry_timer env))
   \<and> (\<forall>e. sms_logs (after (handle_event e g)) \<noteq> sms_logs g
            \<or> transmission_logs (after (handle_event e g)) \<noteq> transmission_logs g \<longrightarrow>
          (\<exists>userId env. e = Callback_query userId ''send_immediate'' env))"
proof (intro conjI allI impI)
  fix e
  assume "systemStats (after (handle_event e g)) \<noteq> systemStats g"
  with event_frame [of e g]
  show "(\<exists>userId env. e = Callback_query userId ''send_immediate'' env)
        \<or> (\<exists>env. e = Retry_timer env)"
    by (simp only: same_counters_and_log_def) fast
next
  fix e
  assume h: "sms_logs (after (handle_event e g)) \<noteq> sms_logs g
     \<or> transmission_logs (after (handle_event e g)) \<noteq> transmission_logs g"
  show "\<exists>userId env. e = Callback_query userId ''send_immediate'' env"
  proof (cases "\<exists>env. e = Retry_timer env")
    case True
    with h retry_timer_log_frame show ?thesis by auto
  next
    case False
    with h event_frame [of e g] show ?thesis
      by (simp only: same_counters_and_log_def) fast
  qed
qed (simp_all add: processTransmissionQueue_drop)


lemma call_sendSMS: "call_ctx ''sendSMS'' = sendSMS"
  by (rule ext)+ (simp add: call_ctx_def ctx_methods_def)

lemma callback_send_immediate:
  "handleCallbackQuery userId ''send_immediate'' env g
   = (sendSMS userId env g)\<lparr>replies := Reply_CallbackAnswered # replies (sendSMS userId env g)\<rparr>"
  by (simp add: handleCallbackQuery_def callback_cases_def call_sendSMS Let_def)

theorem queue_tick_frame_witness:
  "length (transmissionQueue (processTransmissionQueue (\<lambda>i. example_env)
      ((new_gateway 0)\<lparr>transmissionQueue :=
         replicate 12 \<lparr>q_phoneNumber = Some (js ''+923001234567''),
                       q_message = Some (js ''Hello'')\<rparr>\<rparr>))) = 2
   \<and> systemStats (processTransmissionQueue (\<lambda>i. example_env)
      ((new_gateway 0)\<lparr>transmissionQueue :=
         replicate 12 \<lparr>q_phoneNumber = Some (js ''+923001234567''),
                       q_message = Some (js ''Hello'')\<rparr>\<rparr>))
     = systemStats (new_gateway 0)
   \<and> sms_logs (processTransmissionQueue (\<lambda>i. example_env)
      ((new_gateway 0)\<lparr>transmissionQueue :=
         replicate 12 \<lparr>q_phoneNumber = Some (js ''+923001234567''),
                       q_message = Some (js ''Hello'')\<rparr>\<rparr>))
     = Some []
   \<and> totalSMS (systemStats (after (handle_event
        (Callback_query 7 ''send_immediate'' example_env)
        ((new_gateway 0)\<lparr>userSessions :=
           [(7, \<lparr>step = confirm_send, mode = SINGLE,
                 data = \<lparr>sd_phoneNumber = Some (js ''+923001234567''),
                          sd_country = Some ''PAKISTAN'', sd_message = Some (js ''Hello''),
                          sd_messageParts = Some [js ''Hello'']\<rparr>,
                 timestamp = 0\<rparr>)]\<rparr>)))) = 1
   \<and> (\<exists>userId env. Callback_query 7 ''send_immediate'' example_env
         = Callback_query userId ''send_immediate'' env)"
proof -
  let ?q = "(new_gateway 0)\<lparr>transmissionQueue :=
         replicate 12 \<lparr>q_phoneNumber = Some (js ''+923001234567''),
                       q_message = Some (js ''Hello'')\<rparr>\<rparr>"
  let ?g = "(new_gateway 0)\<lparr>userSessions :=
           [(7, \<lparr>step = confirm_send, mode = SINGLE,
                 data = \<lparr>sd_phoneNumber = Some (js ''+923001234567''),
                          sd_country = Some ''PAKISTAN'', sd_message = Some (js ''Hello''),
                          sd_messageParts = Some [js ''Hello'']\<rparr>,
                 timestamp = 0\<rparr>)]\<rparr>"
  let ?e = "Callback_query 7 ''send_immediate'' example_env"
  have total: "totalSMS (systemStats (after (handle_event ?e ?g))) = 1"
    by (simp add: callback_send_immediate sendSMS_def Map_get_def example_success_run
        sendSMS_settled_def sendSMS_counters_def finished_def example_success_def Let_def
        new_gateway_def)
  then have changed: "systemStats (after (handle_event ?e ?g)) \<noteq> systemStats ?g"
    by (auto simp: new_gateway_def)
  note q = queue_tick_frame [of "\<lambda>i. example_env" ?q]
  note g = queue_tick_frame [of "\<lambda>i. example_env" ?g]
  from g have "systemStats (after (handle_event ?e ?g)) \<noteq> systemStats ?g \<longrightarrow>
          (\<exists>userId env. ?e = Callback_query userId ''send_immediate'' env)
          \<or> (\<exists>env. ?e = Retry_timer env)"
    by (elim conjE) (erule allE [of _ ?e])
  with changed have "\<exists>userId env. ?e = Callback_query userId ''send_immediate'' env"
    by simp
  with q total show ?thesis by (simp add: new_gateway_def)
qed

subsection \<open>Text turns of the conversation\<close>


lemma list_all_Map_set:
  "list_all P m \<Longrightarrow> P (k, v) \<Longrightarrow> list_all P (Map_set m k v)"
  by (auto simp: Map_set_def list_all_iff)

lemma list_all_Map_delete: "list_all P m \<Longrightarrow> list_all P (Map_delete m k)"
  by (auto simp: Map_delete_def list_all_iff)

lemma text_step_lookup:
  "map_of text_step_methods ''processPhoneNumber'' = Some processPhoneNumber"
  "map_of text_step_methods ''processMessage'' = Some processMessage"
  "map_of text_step_methods ''processBulkNumbers'' = None"
  "map_of text_step_methods ''processBulkMessages'' = None"
  "map_of text_step_methods ''processScheduleTime'' = None"
  "map_of text_step_methods ''processScheduleMessage'' = None"
  by (simp_all add: text_step_methods_def)

lemma handleTextMessage_steps:
  assumes "Map_get (userSessions g) userId = Some sess"
  shows
    "step sess = awaiting_number \<Longrightarrow>
       handleTextMessage userId t random g = processPhoneNumber userId t sess random g"
    "step sess = awaiting_message \<Longrightarrow>
       handleTextMessage userId t random g = processMessage userId t sess random g"
    "step sess = confirm_send \<Longrightarrow> handleTextMessage userId t random g = finished [] g"
    "step sess = awaiting_bulk_numbers \<Longrightarrow>
       handleTextMessage userId t random g = throws [] (NotAFunction ''processBulkNumbers'') g"
    "step sess = awaiting_bulk_messages \<Longrightarrow>
       handleTextMessage userId t random g = throws [] (NotAFunction ''processBulkMessages'') g"
    "step sess = awaiting_schedule_time \<Longrightarrow>
       handleTextMessage userId t random g = throws [] (NotAFunction ''processScheduleTime'') g"
    "step sess = awaiting_schedule_message \<Longrightarrow>
       handleTextMessage userId t random g
       = throws [] (NotAFunction ''processScheduleMessage'') g"
  using assms
  by (simp_all add: handleTextMessage_def call_text_step_def text_step_lookup)





lemma hello_valid:
  "validateMessage (js ''Hello'') = \<lparr>mv_valid = True, mv_message = MessageAccepted\<rparr>"
  by (simp add: validateMessage_def trim_def isWhiteSpace_def js_def MAX_MESSAGE_LENGTH_def)



subsection \<open>The BULK and SCHEDULED flows\<close>

lemma unreached_Map_set:
  assumes "second_steps_unreached g"
    and "step sess \<noteq> awaiting_bulk_messages" and "step sess \<noteq> awaiting_schedule_message"
  shows "second_steps_unreached (g\<lparr>userSessions := Map_set (userSessions g) userId sess\<rparr>)"
  using assms by (simp add: second_steps_unreached_def list_all_Map_set)

lemma unreached_Map_delete:
  "second_steps_unreached g \<Longrightarrow>
   second_steps_unreached (g\<lparr>userSessions := Map_delete (userSessions g) userId\<rparr>)"
  by (simp add: second_steps_unreached_def list_all_Map_delete)

lemma unreached_same_sessions:
  "second_steps_unreached g \<Longrightarrow> userSessions g' = userSessions g \<Longrightarrow>
   second_steps_unreached g'"
  by (simp add: second_steps_unreached_def)

lemma unreached_text:
  assumes "second_steps_unreached g"
  shows "second_steps_unreached (after (handleTextMessage userId t random g))"
proof (cases "Map_get (userSessions g) userId")
  case None
  with assms show ?thesis by (simp add: handleTextMessage_def finished_def)
next
  case (Some sess)
  show ?thesis
  proof (cases "step sess")
    case awaiting_number
    with handleTextMessage_steps(1) [OF Some, of t random] assms show ?thesis
      by (simp add: processPhoneNumber_def Let_def unreached_Map_set)
  next
    case awaiting_message
    with handleTextMessage_steps(2) [OF Some, of t random] assms show ?thesis
      by (simp add: processMessage_def Let_def unreached_Map_set)
  next
    case confirm_send
    with handleTextMessage_steps(3) [OF Some, of t random] assms show ?thesis
      by (simp add: finished_def)
  next
    case awaiting_bulk_numbers
    with handleTextMessage_steps(4) [OF Some, of t random] assms show ?thesis
      by (simp add: throws_def)
  next
    case awaiting_bulk_messages
    with handleTextMessage_steps(5) [OF Some, of t random] assms show ?thesis
      by (simp add: throws_def)
  next
    case awaiting_schedule_time
    with handleTextMessage_steps(6) [OF Some, of t random] assms show ?thesis
      by (simp add: throws_def)
  next
    case awaiting_schedule_message
    with handleTextMessage_steps(7) [OF Some, of t random] assms show ?thesis
      by (simp add: throws_def)
  qed
qed

lemma unreached_set_step:
  assumes "second_steps_unreached g" and "set_step userId st g = Inr g'"
    and "st \<noteq> awaiting_bulk_messages" and "st \<noteq> awaiting_schedule_message"
  shows "second_steps_unreached g'"
  using assms unreached_Map_set [of g _ userId]
  by (auto simp: set_step_def split: option.splits)

lemma unreached_sendSMS:
  assumes "second_steps_unreached g"
  shows "second_steps_unreached (after (sendSMS userId env g))"
proof -
  have "userSessions (after (sendSMS userId env g)) = userSessions g
        \<or> userSessions (after (sendSMS userId env g)) = Map_delete (userSessions g) userId"
    by (simp add: sendSMS_def sendSMS_settled_def finished_def Let_def
        split: option.splits sum.splits)
  with assms show ?thesis
    by (auto simp: second_steps_unreached_def list_all_Map_delete)
qed

lemma unreached_callback_case:
  assumes "(a, body) \<in> set callback_cases" and u: "second_steps_unreached g"
  shows "second_steps_unreached (after (body userId env g))"
proof -
  have prompt: "second_steps_unreached (after (callback_prompt l userId env g))" for l
    using u by (simp add: callback_prompt_def finished_def)
  have call: "second_steps_unreached (after (call_ctx n userId env g))" for n
  proof (cases "map_of ctx_methods n")
    case None
    with u show ?thesis by (simp add: call_ctx_def throws_def)
  next
    case (Some m)
    then have "m = sendSMS \<or> m = showQuickTemplates"
      by (auto simp: ctx_methods_def split: if_splits)
    with Some u unreached_sendSMS [OF u, of userId env] show ?thesis
      by (auto simp: call_ctx_def showQuickTemplates_def finished_def)
  qed
  have edit: "second_steps_unreached (after (callback_edit_message userId env g))"
    using u unreached_set_step [OF u, of userId awaiting_message]
    by (simp add: callback_edit_message_def finished_def throws_def split: sum.splits)
  have change: "second_steps_unreached (after (callback_change_number userId env g))"
    using u unreached_set_step [OF u, of userId awaiting_number]
    by (simp add: callback_change_number_def finished_def throws_def split: sum.splits)
  have manual: "second_steps_unreached (after (callback_manual_bulk userId env g))"
    using u unreached_set_step [OF u, of userId awaiting_bulk_numbers]
    by (simp add: callback_manual_bulk_def finished_def throws_def split: sum.splits)
  have cancel: "second_steps_unreached (after (callback_cancel userId env g))"
    using unreached_Map_delete [OF u] by (simp add: callback_cancel_def finished_def)
  from assms(1) have
    "(\<exists>l. body = callback_prompt l) \<or> (\<exists>n. body = call_ctx n)
     \<or> body = callback_edit_message \<or> body = callback_change_number
     \<or> body = callback_manual_bulk \<or> body = callback_cancel"
    unfolding callback_cases_def by (simp only: set_simps insert_iff empty_iff prod.inject) fast
  then show ?thesis
    using prompt call edit change manual cancel by (elim disjE exE) simp_all
qed

lemma unreached_callback:
  assumes "second_steps_unreached g"
  shows "second_steps_unreached (after (handleCallbackQuery userId action env g))"
proof (cases "map_of callback_cases action")
  case None
  with assms show ?thesis by (simp add: handleCallbackQuery_def finished_def)
next
  case (Some body)
  from unreached_callback_case [OF map_of_SomeD [OF Some] assms, of userId env] Some
  show ?thesis by (simp add: handleCallbackQuery_def Let_def)
qed

lemma unreached_event:
  assumes u: "second_steps_unreached g"
  shows "second_steps_unreached (after (handle_event e g))"
proof (cases e)
  case (Command_send userId now)
  with unreached_Map_set [OF u, of "new_session awaiting_number SINGLE now" userId]
  show ?thesis by (simp add: initiateSingleSMS_def new_session_def)
next
  case (Command_bulk userId now)
  with unreached_Map_set [OF u, of "new_session awaiting_bulk_numbers BULK now" userId]
  show ?thesis by (simp add: initiateBulkSMS_def new_session_def)
next
  case (Command_schedule userId now)
  with unreached_Map_set [OF u, of "new_session awaiting_schedule_time SCHEDULED now" userId]
  show ?thesis by (simp add: initiateScheduleSMS_def new_session_def)
next
  case (Text_message userId t random)
  with unreached_text [OF u] show ?thesis by simp
next
  case (Callback_query userId action env)
  with unreached_callback [OF u] show ?thesis by simp
next
  case (Retry_timer env)
  have "userSessions (after (retry_timer env g)) = userSessions g"
    by (simp add: retry_timer_def retry_callback_def retryTransmission_def
      retryTransmission_settled_def
        finished_def throws_def split: list.splits sum.splits)
  with Retry_timer unreached_same_sessions [OF u] show ?thesis by simp
next
  case (Queue_tick envs)
  with unreached_same_sessions [OF u] show ?thesis
    by (simp add: finished_def processTransmissionQueue_drop)
next
  case (Monitor_tick memory uptime now)
  with u show ?thesis
    by (simp add: finished_def checkSystemHealth_def cleanupOldSessions_def Let_def
        second_steps_unreached_def list_all_iff)
qed

lemma unreached_run:
  "second_steps_unreached g \<Longrightarrow> second_steps_unreached (run es g)"
  by (induction es arbitrary: g) (simp_all add: unreached_event)

lemma text_turns_raise:
  assumes "Map_get (userSessions g) userId = Some sess"
    and "step sess = awaiting_bulk_numbers \<or> step sess = awaiting_bulk_messages
         \<or> step sess = awaiting_schedule_time \<or> step sess = awaiting_schedule_message"
  shows "after (handleTextMessage userId t random g) = g"
    and "replies (handleTextMessage userId t random g) = []"
    and "raised (handleTextMessage userId t random g)
         = Some (NotAFunction
             (case step sess of
                awaiting_bulk_numbers \<Rightarrow> ''processBulkNumbers''
              | awaiting_bulk_messages \<Rightarrow> ''processBulkMessages''
              | awaiting_schedule_time \<Rightarrow> ''processScheduleTime''
              | _ \<Rightarrow> ''processScheduleMessage''))"
  using assms(2) handleTextMessage_steps(4-7) [OF assms(1), of t random]
  by (auto simp: throws_def)

lemma text_turns_stay:
  assumes "Map_get (userSessions g) userId = Some sess"
    and "step sess = awaiting_bulk_numbers \<or> step sess = awaiting_bulk_messages
         \<or> step sess = awaiting_schedule_time \<or> step sess = awaiting_schedule_message"
  shows "run (text_turns userId turns) g = g"
proof (induction turns)
  case Nil
  show ?case by (simp add: text_turns_def)
next
  case (Cons a turns)
  obtain t random where a: "a = (t, random)" by (cases a)
  from Cons text_turns_raise(1) [OF assms, of t random] show ?case
    by (simp add: text_turns_def a)
qed


lemma undefined_text_handlers:
  "''processBulkNumbers'' \<notin> set class_methods"
  "''processBulkMessages'' \<notin> set class_methods"
  "''processScheduleTime'' \<notin> set class_methods"
  "''processScheduleMessage'' \<notin> set class_methods"
  by (simp_all add: class_methods_def)

lemma handler_tables_in_class:
  "fst ` set text_step_methods \<subseteq> set class_methods"
  "fst ` set ctx_methods \<subseteq> set class_methods"
  by (simp_all add: text_step_methods_def ctx_methods_def class_methods_def)

lemma unreached_new_gateway: "second_steps_unreached (new_gateway now)"
  by (simp add: second_steps_unreached_def new_gateway_def)

text \<open>
  C3 (as amended). The class defines no method named \<open>processBulkNumbers\<close>,
  \<open>processBulkMessages\<close>, \<open>processScheduleTime\<close> or \<open>processScheduleMessage\<close>. For a
  user whose session is at \<open>awaiting_bulk_numbers\<close>, \<open>awaiting_bulk_messages\<close>,
  \<open>awaiting_schedule_time\<close> or \<open>awaiting_schedule_message\<close>, every text message makes
  \<open>handleTextMessage\<close> call the undefined method of that step and raise, with no reply and
  with the state as it was; so no sequence of text messages of that user moves the
  session. And from a new gateway, or from any state without such a session, no sequence
  of events of any kind brings a session to \<open>awaiting_bulk_messages\<close> or to
  \<open>awaiting_schedule_message\<close>, the steps that follow the first one in the two flows.
  (The exception is caught by the transport, whose \<open>bot.catch\<close> handler answers with a
  general error message.)
\<close>

theorem bulk_and_schedule_text_turns_raise:
  "''processBulkNumbers'' \<notin> set class_methods
   \<and> ''processBulkMessages'' \<notin> set class_methods
   \<and> ''processScheduleTime'' \<notin> set class_methods
   \<and> ''processScheduleMessage'' \<notin> set class_methods
   \<and> (Map_get (userSessions g) userId = Some sess
        \<and> (step sess = awaiting_bulk_numbers \<or> step sess = awaiting_bulk_messages
             \<or> step sess = awaiting_schedule_time \<or> step sess = awaiting_schedule_message)
        \<longrightarrow>
          raised (handleTextMessage userId t random g)
            = Some (NotAFunction
                (case step sess of
                   awaiting_bulk_numbers \<Rightarrow> ''processBulkNumbers''
                 | awaiting_bulk_messages \<Rightarrow> ''processBulkMessages''
                 | awaiting_schedule_time \<Rightarrow> ''processScheduleTime''
                 | _ \<Rightarrow> ''processScheduleMessage''))
          \<and> replies (handleTextMessage userId t random g) = []
          \<and> after (handleTextMessage userId t random g) = g
          \<and> run (text_turns userId turns) g = g)
   \<and> second_steps_unreached (new_gateway now)
   \<and> (second_steps_unreached g \<longrightarrow> second_steps_unreached (run es g))"
  using undefined_text_handlers text_turns_raise [of g userId sess t random]
    text_turns_stay [of g userId sess turns] unreached_new_gateway [of now]
    unreached_run [of g es]
  by (intro conjI impI) simp_all


theorem bulk_and_schedule_text_turns_raise_witness:
  "raised (handleTextMessage 7 (js ''+923001234567'') 0
      ((new_gateway 0)\<lparr>userSessions := [(7, new_session awaiting_bulk_numbers BULK 0)]\<rparr>))
     = Some (NotAFunction ''processBulkNumbers'')
   \<and> run (text_turns 7 [(js ''+923001234567'', 0), (js ''Hello'', 0)])
      ((new_gateway 0)\<lparr>userSessions := [(7, new_session awaiting_bulk_numbers BULK 0)]\<rparr>)
     = (new_gateway 0)\<lparr>userSessions := [(7, new_session awaiting_bulk_numbers BULK 0)]\<rparr>
   \<and> second_steps_unreached
      (run [Command_schedule 7 10, Text_message 7 (js ''2024-01-15 14:30'') 0] (new_gateway 0))"
proof -
  let ?g = "(new_gateway 0)\<lparr>userSessions := [(7, new_session awaiting_bulk_numbers BULK 0)]\<rparr>"
  have s: "Map_get (userSessions ?g) 7 = Some (new_session awaiting_bulk_numbers BULK 0)
      \<and> (step (new_session awaiting_bulk_numbers BULK 0) = awaiting_bulk_numbers
           \<or> step (new_session awaiting_bulk_numbers BULK 0) = awaiting_bulk_messages
           \<or> step (new_session awaiting_bulk_numbers BULK 0) = awaiting_schedule_time
           \<or> step (new_session awaiting_bulk_numbers BULK 0) = awaiting_schedule_message)"
    by (simp add: Map_get_def new_session_def)
  note t = bulk_and_schedule_text_turns_raise [of ?g 7 "new_session awaiting_bulk_numbers BULK 0"
      "js ''+923001234567''" 0 "[(js ''+923001234567'', 0), (js ''Hello'', 0)]" 0
      "[Command_schedule 7 10, Text_message 7 (js ''2024-01-15 14:30'') 0]"]
  from t s have a: "raised (handleTextMessage 7 (js ''+923001234567'') 0 ?g)
       = Some (NotAFunction ''processBulkNumbers'')
     \<and> run (text_turns 7 [(js ''+923001234567'', 0), (js ''Hello'', 0)]) ?g = ?g"
    by (simp add: new_session_def)
  note t0 = bulk_and_schedule_text_turns_raise [of "new_gateway 0" 7
      "new_session awaiting_bulk_numbers BULK 0" "js ''+923001234567''" 0 "[]" 0
      "[Command_schedule 7 10, Text_message 7 (js ''2024-01-15 14:30'') 0]"]
  from t0 have b: "second_steps_unreached
      (run [Command_schedule 7 10, Text_message 7 (js ''2024-01-15 14:30'') 0] (new_gateway 0))"
    by (elim conjE) (erule mp, assumption)
  from a b show ?thesis by simp
qed

text \<open>
  C3 as stated concludes that no session ever advances beyond the initial step of the
  BULK or SCHEDULED flow. The callback actions write the step of whatever session the user
  has: after a single flow has shown its preview, \<open>/bulk\<close> followed by the preview's
  \<open>edit_message\<close> button and a text brings the session of mode \<open>BULK\<close> to
  \<open>confirm_send\<close>.
\<close>

theorem bulk_session_reaches_confirm_send:
  "Map_get (userSessions
      (run [Command_send 7 10,
            Text_message 7 (js ''+923001234567'') 0,
            Text_message 7 (js ''Hello'') 0,
            Command_bulk 7 20,
            Callback_query 7 ''edit_message'' example_env,
            Text_message 7 (js ''Hello'') 0]
         (new_gateway 0))) 7
   = Some \<lparr>step = confirm_send, mode = BULK,
           data = \<lparr>sd_phoneNumber = None, sd_country = None,
                    sd_message = Some (js ''Hello''),
                    sd_messageParts = Some [js ''Hello'']\<rparr>,
           timestamp = 20\<rparr>"
proof -
  have good: "validatePhoneNumber (js ''+923001234567'')
      = \<lparr>pv_valid = True, pv_message = PhoneAccepted, pv_country = ''PAKISTAN''\<rparr>"
    by (simp add: validatePhoneNumber_def scenario_values scenario_country)
  have split: "splitMessage (js ''Hello'') = [js ''Hello'']" by (rule scenario_values)
  have edit: "map_of callback_cases ''edit_message'' = Some callback_edit_message"
    by (simp add: callback_cases_def)
  show ?thesis
    by (simp add: new_gateway_def initiateSingleSMS_def initiateBulkSMS_def new_session_def
        empty_data_def Map_set_def Map_get_def handleTextMessage_def call_text_step_def
        text_step_lookup processPhoneNumber_def processMessage_def good hello_valid split
        handleCallbackQuery_def edit callback_edit_message_def set_step_def finished_def
        Let_def)
qed

end
